theory Spec2Isabelle
  imports Complex_Main "HOL-Library.AList" "HOL-Library.Sublist"
begin

section \<open>Python values\<close>

text \<open>
  The three scripts exchange the values that \<^verbatim>\<open>json.loads\<close> and \<^verbatim>\<open>json.load\<close> build:
  \<^verbatim>\<open>None\<close>, booleans, unbounded integers, floats, strings, lists and dictionaries.
  A Python \<^verbatim>\<open>str\<close> is modelled by its UTF-8 bytes (\<open>string\<close>); searching, slicing at
  the position of an ASCII character and comparing give the same answers on the bytes as
  on the code points. A dictionary keeps its insertion order, so it is an association
  list; \<^verbatim>\<open>d.get(k)\<close> is the first entry for \<open>k\<close>.
\<close>

datatype pyfloat = Finite real | NegZero | PosInf | NegInf | NaN

datatype pyval =
    PNone
  | PBool bool
  | PInt int
  | PFloat pyfloat
  | PStr string
  | PList "pyval list"
  | PDict "(string \<times> pyval) list"

type_synonym pydict = "(string \<times> pyval) list"

datatype py_error = AttributeError | IndexError | KeyError | TypeError | ValueError
  | JSONDecodeError | OtherError

text \<open>Truth value of an object in \<^verbatim>\<open>if x:\<close> and \<^verbatim>\<open>not x\<close>.\<close>

fun float_truthy :: "pyfloat \<Rightarrow> bool" where
  "float_truthy (Finite r) = (r \<noteq> 0)"
| "float_truthy NegZero = False"
| "float_truthy PosInf = True"
| "float_truthy NegInf = True"
| "float_truthy NaN = True"

fun truthy :: "pyval \<Rightarrow> bool" where
  "truthy PNone = False"
| "truthy (PBool b) = b"
| "truthy (PInt i) = (i \<noteq> 0)"
| "truthy (PFloat f) = float_truthy f"
| "truthy (PStr s) = (s \<noteq> [])"
| "truthy (PList xs) = (xs \<noteq> [])"
| "truthy (PDict kvs) = (kvs \<noteq> [])"

text \<open>\<^verbatim>\<open>d.get(k)\<close>: the value, or \<^verbatim>\<open>None\<close> when the key is missing.\<close>

definition dict_get :: "pydict \<Rightarrow> string \<Rightarrow> pyval" where
  "dict_get d k = (case map_of d k of None \<Rightarrow> PNone | Some v \<Rightarrow> v)"

text \<open>
  What an f-string puts for \<^verbatim>\<open>{x}\<close>: a \<^verbatim>\<open>str\<close> itself, and Python's \<^verbatim>\<open>str(x)\<close> for any
  other object. The rendering of the other objects (numbers, containers) is the
  interpreter's and is a parameter \<open>fmt\<close> of the model.
\<close>

definition py_format :: "(pyval \<Rightarrow> string) \<Rightarrow> pyval \<Rightarrow> string" where
  "py_format fmt v = (case v of PStr s \<Rightarrow> s | _ \<Rightarrow> fmt v)"

section \<open>Legislacao.py: the corpus builder\<close>

subsection \<open>\<^verbatim>\<open>extrair_resultados_recursivamente\<close>\<close>

text \<open>
  The text of one kept row, \<^verbatim>\<open>f"PATH: {path}\nCONTE\<close>U\<^verbatim>\<open>DO: {conteudo}"\<close>; the accented
  capital U (U+00DA) is the two bytes C3 9A.
\<close>

definition texto_concatenado :: "(pyval \<Rightarrow> string) \<Rightarrow> pyval \<Rightarrow> pyval \<Rightarrow> string" where
  "texto_concatenado fmt path conteudo =
     ''PATH: '' @ py_format fmt path @ [CHR 0x0A] @ ''CONTE'' @ [CHR 0xC3, CHR 0x9A]
       @ ''DO: '' @ py_format fmt conteudo"

text \<open>
  The body of \<^verbatim>\<open>for row in valor\<close>: \<^verbatim>\<open>row.get\<close> exists on a dictionary only, any other
  row raises \<^verbatim>\<open>AttributeError\<close>; a row is appended when both values are truthy, with
  \<^verbatim>\<open>len(resultados_extraidos)\<close> as its id. \<open>acc\<close> is \<^verbatim>\<open>resultados_extraidos\<close>.
\<close>

fun processar_rows :: "(pyval \<Rightarrow> string) \<Rightarrow> pyval list \<Rightarrow> pydict list \<Rightarrow> py_error + pydict list" where
  "processar_rows fmt [] acc = Inr acc"
| "processar_rows fmt (row # rows) acc =
     (case row of
        PDict d \<Rightarrow>
          (let path = dict_get d ''Path'';
               conteudo = dict_get d ''PublishingPageContentOWSHTML''
           in if truthy path \<and> truthy conteudo
              then processar_rows fmt rows
                     (acc @ [[(''id'', PInt (int (length acc))),
                              (''path'', path),
                              (''conteudo'', PStr (texto_concatenado fmt path conteudo))]])
              else processar_rows fmt rows acc)
      | _ \<Rightarrow> Inl AttributeError)"

text \<open>
  \<^verbatim>\<open>buscar_result_rows\<close>, with the two loops as functions of their own: \<open>buscar_items\<close>
  is \<^verbatim>\<open>for chave, valor in item.items()\<close> and \<open>buscar_elementos\<close> is
  \<^verbatim>\<open>for elemento in item\<close>. The \<^verbatim>\<open>return\<close> after the rows of a \<^verbatim>\<open>ResultRows\<close> list leaves
  the whole call, so the entries that follow in the same dictionary are not looked at.
\<close>

fun buscar_result_rows :: "(pyval \<Rightarrow> string) \<Rightarrow> pyval \<Rightarrow> pydict list \<Rightarrow> py_error + pydict list"
  and buscar_items :: "(pyval \<Rightarrow> string) \<Rightarrow> (string \<times> pyval) list \<Rightarrow> pydict list \<Rightarrow> py_error + pydict list"
  and buscar_elementos :: "(pyval \<Rightarrow> string) \<Rightarrow> pyval list \<Rightarrow> pydict list \<Rightarrow> py_error + pydict list"
where
  "buscar_result_rows fmt (PDict kvs) acc = buscar_items fmt kvs acc"
| "buscar_result_rows fmt (PList xs) acc = buscar_elementos fmt xs acc"
| "buscar_result_rows fmt PNone acc = Inr acc"
| "buscar_result_rows fmt (PBool b) acc = Inr acc"
| "buscar_result_rows fmt (PInt i) acc = Inr acc"
| "buscar_result_rows fmt (PFloat f) acc = Inr acc"
| "buscar_result_rows fmt (PStr s) acc = Inr acc"
| "buscar_items fmt [] acc = Inr acc"
| "buscar_items fmt ((chave, valor) # rest) acc =
     (case valor of
        PList rows \<Rightarrow>
          (if chave = ''ResultRows'' then processar_rows fmt rows acc
           else (case buscar_result_rows fmt valor acc of
                   Inl e \<Rightarrow> Inl e
                 | Inr acc' \<Rightarrow> buscar_items fmt rest acc'))
      | _ \<Rightarrow>
          (case buscar_result_rows fmt valor acc of
             Inl e \<Rightarrow> Inl e
           | Inr acc' \<Rightarrow> buscar_items fmt rest acc'))"
| "buscar_elementos fmt [] acc = Inr acc"
| "buscar_elementos fmt (elemento # rest) acc =
     (case buscar_result_rows fmt elemento acc of
        Inl e \<Rightarrow> Inl e
      | Inr acc' \<Rightarrow> buscar_elementos fmt rest acc')"

definition extrair_resultados_recursivamente :: "(pyval \<Rightarrow> string) \<Rightarrow> pyval \<Rightarrow> py_error + pydict list" where
  "extrair_resultados_recursivamente fmt dados = buscar_result_rows fmt dados []"

subsection \<open>The extraction as the specification words it\<close>


text \<open>A row is kept when it is a dictionary whose two values are both truthy.\<close>

fun row_valida :: "pyval \<Rightarrow> bool" where
  "row_valida (PDict d) =
     (truthy (dict_get d ''Path'') \<and> truthy (dict_get d ''PublishingPageContentOWSHTML''))"
| "row_valida PNone = False"
| "row_valida (PBool b) = False"
| "row_valida (PInt i) = False"
| "row_valida (PFloat f) = False"
| "row_valida (PStr s) = False"
| "row_valida (PList xs) = False"

fun is_dict :: "pyval \<Rightarrow> bool" where
  "is_dict (PDict d) = True"
| "is_dict PNone = False"
| "is_dict (PBool b) = False"
| "is_dict (PInt i) = False"
| "is_dict (PFloat f) = False"
| "is_dict (PStr s) = False"
| "is_dict (PList xs) = False"

text \<open>The passage built from a kept row and its id.\<close>

fun passage_of :: "(pyval \<Rightarrow> string) \<Rightarrow> nat \<times> pyval \<Rightarrow> pydict" where
  "passage_of fmt (i, PDict d) =
     [(''id'', PInt (int i)),
      (''path'', dict_get d ''Path''),
      (''conteudo'', PStr (texto_concatenado fmt (dict_get d ''Path'')
                            (dict_get d ''PublishingPageContentOWSHTML'')))]"
| "passage_of fmt (i, PNone) = []"
| "passage_of fmt (i, PBool b) = []"
| "passage_of fmt (i, PInt k) = []"
| "passage_of fmt (i, PFloat f) = []"
| "passage_of fmt (i, PStr s) = []"
| "passage_of fmt (i, PList xs) = []"

text \<open>The kept rows numbered from \<open>n\<close> in their order.\<close>

definition passages_from :: "(pyval \<Rightarrow> string) \<Rightarrow> nat \<Rightarrow> pyval list \<Rightarrow> pydict list" where
  "passages_from fmt n rows = map (passage_of fmt) (enumerate n (filter row_valida rows))"


subsection \<open>\<^verbatim>\<open>desserializar_json_resistente\<close>\<close>

text \<open>
  \<^verbatim>\<open>str.find\<close> and \<^verbatim>\<open>str.rfind\<close> of one character: the position of its first (last)
  occurrence, or \<open>-1\<close>. \<^verbatim>\<open>s[i:j]\<close> for \<open>0 \<le> i\<close> and \<open>0 \<le> j\<close>.
\<close>

definition py_find :: "char \<Rightarrow> string \<Rightarrow> int" where
  "py_find c s = (if c \<in> set s then int (length (takeWhile (\<lambda>x. x \<noteq> c) s)) else - 1)"

definition py_rfind :: "char \<Rightarrow> string \<Rightarrow> int" where
  "py_rfind c s =
     (if c \<in> set s then int (length s) - 1 - int (length (takeWhile (\<lambda>x. x \<noteq> c) (rev s)))
      else - 1)"

definition py_slice :: "string \<Rightarrow> int \<Rightarrow> int \<Rightarrow> string" where
  "py_slice s i j = drop (nat i) (take (nat j) s)"

text \<open>
  The text handed to \<^verbatim>\<open>json.loads\<close>: the slice from the first \<^verbatim>\<open>[\<close> to the last \<^verbatim>\<open>]\<close>
  when both searches succeed, the body as it is otherwise.
\<close>

definition texto_isolado :: "string \<Rightarrow> string" where
  "texto_isolado texto_json =
     (let start = py_find (CHR ''['') texto_json;
          end_pos = py_rfind (CHR '']'') texto_json
      in if start \<noteq> - 1 \<and> end_pos \<noteq> - 1 then py_slice texto_json start (end_pos + 1)
         else texto_json)"

text \<open>
  The lines Legislacao.py prints that tell an outcome (banners and the request's status
  line are left out):
  \<^item> \<open>ErroDesserializacaoJSON\<close>: "Erro de Desserializacao JSON: Nao foi possivel converter
    a string em JSON."
  \<^item> \<open>ErroInesperadoDesserializar\<close>: "Erro inesperado ao desserializar JSON: ..."
  \<^item> \<open>ExtracaoConcluida n\<close>: "Extracao Concluida. n Resultados base encontrados."
  \<^item> \<open>EmbeddingsGerados n d\<close>: "n Embeddings gerados com sucesso (dimensao d)."
  \<^item> \<open>SemVetores\<close>: "Nao ha vetores para indexar no FAISS."
  \<^item> \<open>ConstruindoIndice d n\<close>: "Construindo Indice FAISS (Dimensao: d, Vetores: n)"
  \<^item> \<open>IndiceSalvo f\<close>, \<open>ErroSalvarIndice\<close>: "Indice FAISS (IndexFlatL2) salvo com sucesso: f",
    "Erro ao salvar o indice FAISS: ..."
  \<^item> \<open>MetadadosSalvos f\<close>, \<open>ErroSalvarMetadados\<close>: "Metadados dos documentos salvos com
    sucesso: f", "Erro ao salvar os metadados: ..."
  \<^item> \<open>NenhumaLinha\<close>: "Nenhuma linha de resultado ('ResultRows') foi encontrada ou os
    campos estavam incompletos."
\<close>

datatype msg =
    ErroDesserializacaoJSON
  | ErroInesperadoDesserializar
  | ExtracaoConcluida nat
  | EmbeddingsGerados nat nat
  | SemVetores
  | ConstruindoIndice nat nat
  | IndiceSalvo string
  | ErroSalvarIndice
  | MetadadosSalvos string
  | ErroSalvarMetadados
  | NenhumaLinha

text \<open>
  \<^verbatim>\<open>json.loads\<close> is the library's and is the parameter \<open>loads\<close>: the parsed value, or the
  exception it raises. The function returns \<^verbatim>\<open>None\<close> after either handler; the second
  component is what it printed.
\<close>

definition desserializar_json_resistente ::
  "(string \<Rightarrow> py_error + pyval) \<Rightarrow> string \<Rightarrow> pyval \<times> msg list" where
  "desserializar_json_resistente loads texto_json =
     (case loads (texto_isolado texto_json) of
        Inr dados \<Rightarrow> (dados, [])
      | Inl JSONDecodeError \<Rightarrow> (PNone, [ErroDesserializacaoJSON])
      | Inl _ \<Rightarrow> (PNone, [ErroInesperadoDesserializar]))"

subsection \<open>\<^verbatim>\<open>processar_para_faiss\<close>\<close>

text \<open>\<^verbatim>\<open>d[k]\<close>: the value, or \<^verbatim>\<open>KeyError\<close>.\<close>

definition dict_item :: "pydict \<Rightarrow> string \<Rightarrow> py_error + pyval" where
  "dict_item d k = (case map_of d k of None \<Rightarrow> Inl KeyError | Some v \<Rightarrow> Inr v)"

text \<open>
  A two-dimensional numpy array is the list of its rows; \<^verbatim>\<open>np.array([])\<close> is the empty
  list. \<^verbatim>\<open>a.size\<close> counts the elements, \<^verbatim>\<open>a.shape[0]\<close> the rows, and \<^verbatim>\<open>a.shape[1]\<close> is the
  length of a row.
\<close>

type_synonym ndarray = "pyfloat list list"

definition ndarray_size :: "ndarray \<Rightarrow> nat" where
  "ndarray_size a = sum_list (map length a)"

definition shape0 :: "ndarray \<Rightarrow> nat" where
  "shape0 a = length a"

definition shape1 :: "ndarray \<Rightarrow> nat" where
  "shape1 a = (case a of [] \<Rightarrow> 0 | v # _ \<Rightarrow> length v)"

record dados_processados =
  vetores :: ndarray
  metadados :: "pydict list"

text \<open>\<^verbatim>\<open>[item['conteudo'] for item in resultados]\<close>.\<close>

fun textos_de :: "pydict list \<Rightarrow> py_error + pyval list" where
  "textos_de [] = Inr []"
| "textos_de (item # rest) =
     (case dict_item item ''conteudo'' of
        Inl e \<Rightarrow> Inl e
      | Inr t \<Rightarrow> (case textos_de rest of Inl e \<Rightarrow> Inl e | Inr ts \<Rightarrow> Inr (t # ts)))"

text \<open>The loop that copies \<^verbatim>\<open>id\<close>, \<^verbatim>\<open>path\<close> and \<^verbatim>\<open>conteudo\<close> of every item.\<close>

fun metadados_de :: "pydict list \<Rightarrow> py_error + pydict list" where
  "metadados_de [] = Inr []"
| "metadados_de (item # rest) =
     (case dict_item item ''id'' of
        Inl e \<Rightarrow> Inl e
      | Inr i \<Rightarrow>
     (case dict_item item ''path'' of
        Inl e \<Rightarrow> Inl e
      | Inr p \<Rightarrow>
     (case dict_item item ''conteudo'' of
        Inl e \<Rightarrow> Inl e
      | Inr c \<Rightarrow>
     (case metadados_de rest of
        Inl e \<Rightarrow> Inl e
      | Inr ms \<Rightarrow> Inr ([(''id'', i), (''path'', p), (''conteudo'', c)] # ms)))))"

text \<open>
  \<^verbatim>\<open>MODELO_EMBEDDING.encode\<close> is the parameter \<open>encode\<close>: the array of embeddings, or the
  exception it raises (none is caught here).
\<close>

definition processar_para_faiss ::
  "(pyval list \<Rightarrow> py_error + ndarray) \<Rightarrow> pydict list \<Rightarrow> py_error + (dados_processados \<times> msg list)" where
  "processar_para_faiss encode resultados =
     (if resultados = [] then Inr (\<lparr>vetores = [], metadados = []\<rparr>, [])
      else
        (case textos_de resultados of
           Inl e \<Rightarrow> Inl e
         | Inr textos \<Rightarrow>
        (case encode textos of
           Inl e \<Rightarrow> Inl e
         | Inr embeddings_array \<Rightarrow>
        (case metadados_de resultados of
           Inl e \<Rightarrow> Inl e
         | Inr ms \<Rightarrow>
             Inr (\<lparr>vetores = embeddings_array, metadados = ms\<rparr>,
                  [EmbeddingsGerados (shape0 embeddings_array) (shape1 embeddings_array)])))))"

subsection \<open>\<^verbatim>\<open>construir_e_salvar_indice_faiss\<close>\<close>

text \<open>
  A flat index: its dimension and the vectors added, in order. A file holds what was
  written to it: an index (\<^verbatim>\<open>faiss.write_index\<close>) or a JSON value (\<^verbatim>\<open>json.dump\<close>);
  reading gives the written object back. \<open>gravavel\<close> tells which names can be written:
  a write to another name raises, and each write has its own \<^verbatim>\<open>try\<close>.
\<close>

record faiss_index =
  dimensao :: nat
  xb :: ndarray

definition ntotal :: "faiss_index \<Rightarrow> nat" where
  "ntotal index = length (xb index)"

datatype arquivo = ArquivoFaiss faiss_index | ArquivoJson pyval

record mundo =
  arquivos :: "string \<Rightarrow> arquivo option"
  gravavel :: "string \<Rightarrow> bool"
  saida :: "msg list"

definition imprime :: "msg list \<Rightarrow> mundo \<Rightarrow> mundo" where
  "imprime ms w = w\<lparr>saida := saida w @ ms\<rparr>"

definition salvar_indice :: "faiss_index \<Rightarrow> string \<Rightarrow> mundo \<Rightarrow> mundo" where
  "salvar_indice index nome_indice w =
     (if gravavel w nome_indice
      then imprime [IndiceSalvo nome_indice]
             (w\<lparr>arquivos := (arquivos w)(nome_indice \<mapsto> ArquivoFaiss index)\<rparr>)
      else imprime [ErroSalvarIndice] w)"

definition salvar_metadados :: "pydict list \<Rightarrow> string \<Rightarrow> mundo \<Rightarrow> mundo" where
  "salvar_metadados ms nome_metadados w =
     (if gravavel w nome_metadados
      then imprime [MetadadosSalvos nome_metadados]
             (w\<lparr>arquivos := (arquivos w)(nome_metadados \<mapsto> ArquivoJson (PList (map PDict ms)))\<rparr>)
      else imprime [ErroSalvarMetadados] w)"

definition construir_e_salvar_indice_faiss :: "dados_processados \<Rightarrow> string \<Rightarrow> mundo \<Rightarrow> mundo" where
  "construir_e_salvar_indice_faiss dados nome_base_arquivo w =
     (if ndarray_size (vetores dados) = 0 then imprime [SemVetores] w
      else
        (let d = shape1 (vetores dados);
             num_vetores = shape0 (vetores dados);
             index = \<lparr>dimensao = d, xb = vetores dados\<rparr>;
             w1 = imprime [ConstruindoIndice d num_vetores] w;
             w2 = salvar_indice index (nome_base_arquivo @ ''.faiss'') w1
         in salvar_metadados (metadados dados) (nome_base_arquivo @ ''_metadados.json'') w2))"

subsection \<open>The script's main block\<close>

text \<open>
  \<open>resposta\<close> is the body of the portal's answer, or \<open>None\<close> when the request failed
  (\<^verbatim>\<open>fazer_requisicao_fazenda_sp\<close> returned \<^verbatim>\<open>None\<close>). The first component of the result is
  the exception that ended the process, if one did: nothing in the block catches what
  the extraction or the encoder raises.
\<close>

definition corpus_de_dados ::
  "(pyval \<Rightarrow> string) \<Rightarrow> (pyval list \<Rightarrow> py_error + ndarray) \<Rightarrow> string \<Rightarrow> pyval \<Rightarrow> mundo
     \<Rightarrow> py_error option \<times> mundo" where
  "corpus_de_dados fmt encode termo dados_json w =
     (if truthy dados_json then
        (case extrair_resultados_recursivamente fmt dados_json of
           Inl e \<Rightarrow> (Some e, w)
         | Inr resultados_base \<Rightarrow>
             (let w1 = imprime [ExtracaoConcluida (length resultados_base)] w in
              if resultados_base \<noteq> [] then
                (case processar_para_faiss encode resultados_base of
                   Inl e \<Rightarrow> (Some e, w1)
                 | Inr (dados_faiss, ms) \<Rightarrow>
                     (None, construir_e_salvar_indice_faiss dados_faiss (''faiss_index_'' @ termo)
                              (imprime ms w1)))
              else (None, imprime [NenhumaLinha] w1)))
      else (None, w))"

definition legislacao_main ::
  "(string \<Rightarrow> py_error + pyval) \<Rightarrow> (pyval \<Rightarrow> string) \<Rightarrow> (pyval list \<Rightarrow> py_error + ndarray)
     \<Rightarrow> string \<Rightarrow> string option \<Rightarrow> mundo \<Rightarrow> py_error option \<times> mundo" where
  "legislacao_main loads fmt encode termo resposta w =
     (case resposta of
        None \<Rightarrow> (None, w)
      | Some texto \<Rightarrow>
          (case desserializar_json_resistente loads texto of
             (dados_json, ms) \<Rightarrow> corpus_de_dados fmt encode termo dados_json (imprime ms w)))"

section \<open>BuscaFaiss.py: the retriever\<close>

subsection \<open>\<^verbatim>\<open>carregar_indice_e_metadados\<close>\<close>

text \<open>
  What the loader prints: \<open>CarregadoComSucesso\<close> ("Indice FAISS e Metadados carregados
  com sucesso."), \<open>ArquivosNaoEncontrados\<close> (the \<^verbatim>\<open>FileNotFoundError\<close> handler) and
  \<open>ErroAoCarregar\<close> ("Erro ao carregar arquivos: ...", any other exception).
  \<^verbatim>\<open>faiss.read_index\<close> raises its own error, not \<^verbatim>\<open>FileNotFoundError\<close>, when the file is
  missing or is not an index; \<^verbatim>\<open>open\<close> raises \<^verbatim>\<open>FileNotFoundError\<close>, and \<^verbatim>\<open>json.load\<close> fails on
  a file that is not JSON.
\<close>

datatype msg_busca = CarregadoComSucesso | ArquivosNaoEncontrados | ErroAoCarregar

definition carregar_indice_e_metadados ::
  "(string \<Rightarrow> arquivo option) \<Rightarrow> string \<Rightarrow> (faiss_index \<times> pyval) option \<times> msg_busca list" where
  "carregar_indice_e_metadados fs nome_base_arquivo =
     (let nome_indice = ''faiss_index_'' @ nome_base_arquivo @ ''.faiss'';
          nome_metadados = ''faiss_index_'' @ nome_base_arquivo @ ''_metadados.json''
      in case fs nome_indice of
           Some (ArquivoFaiss index) \<Rightarrow>
             (case fs nome_metadados of
                None \<Rightarrow> (None, [ArquivosNaoEncontrados])
              | Some (ArquivoJson ms) \<Rightarrow> (Some (index, ms), [CarregadoComSucesso])
              | Some (ArquivoFaiss _) \<Rightarrow> (None, [ErroAoCarregar]))
         | _ \<Rightarrow> (None, [ErroAoCarregar]))"

subsection \<open>\<^verbatim>\<open>buscar_faiss\<close>\<close>

text \<open>
  \<^verbatim>\<open>metadados\<close> is a list of objects. The loop stores into the objects it looks up and
  appends the same objects to \<^verbatim>\<open>resultados_relevantes\<close>, so the model keeps the objects
  in one store, \<open>docs\<close> (the object at position \<open>p\<close> of \<^verbatim>\<open>metadados\<close>), and the result
  list as references into it (positions).
\<close>

record busca_estado =
  docs :: "pyval list"
  resultados_relevantes :: "nat list"

text \<open>\<^verbatim>\<open>xs[i]\<close> on a list of length \<open>n\<close>: the position read, a negative index counting from the end.\<close>

definition py_index_pos :: "nat \<Rightarrow> int \<Rightarrow> py_error + nat" where
  "py_index_pos n i =
     (if 0 \<le> i \<and> i < int n then Inr (nat i)
      else if - int n \<le> i \<and> i < 0 then Inr (nat (int n + i))
      else Inl IndexError)"

text \<open>\<^verbatim>\<open>a[0][i]\<close> on a two-dimensional array.\<close>

definition item_0 :: "'a list list \<Rightarrow> nat \<Rightarrow> py_error + 'a" where
  "item_0 a i =
     (case a of
        [] \<Rightarrow> Inl IndexError
      | linha # _ \<Rightarrow> if i < length linha then Inr (linha ! i) else Inl IndexError)"

text \<open>
  \<^verbatim>\<open>documento_relevante['rank'] = i + 1\<close> and
  \<^verbatim>\<open>documento_relevante['distancia_l2'] = float(distancia)\<close>: item assignment needs a
  dictionary; it overwrites the key in place or appends it.
\<close>

definition anotar :: "nat \<Rightarrow> pyfloat \<Rightarrow> pyval \<Rightarrow> py_error + pyval" where
  "anotar i distancia documento_relevante =
     (case documento_relevante of
        PDict d \<Rightarrow>
          Inr (PDict (AList.update ''distancia_l2'' (PFloat distancia)
                        (AList.update ''rank'' (PInt (int i + 1)) d)))
      | _ \<Rightarrow> Inl TypeError)"

text \<open>The body of \<^verbatim>\<open>for i in range(k)\<close>, over the values of \<open>i\<close> still to come.\<close>

fun mapear_ids ::
  "pyfloat list list \<Rightarrow> int list list \<Rightarrow> nat list \<Rightarrow> busca_estado \<Rightarrow> py_error + busca_estado" where
  "mapear_ids distancias indices [] st = Inr st"
| "mapear_ids distancias indices (i # rest) st =
     (case item_0 indices i of
        Inl e \<Rightarrow> Inl e
      | Inr id_sequencial \<Rightarrow>
          if id_sequencial = - 1 then mapear_ids distancias indices rest st
          else
            (case item_0 distancias i of
               Inl e \<Rightarrow> Inl e
             | Inr distancia \<Rightarrow>
            (case py_index_pos (length (docs st)) id_sequencial of
               Inl e \<Rightarrow> Inl e
             | Inr pos \<Rightarrow>
            (case anotar i distancia (docs st ! pos) of
               Inl e \<Rightarrow> Inl e
             | Inr doc \<Rightarrow>
                 mapear_ids distancias indices rest
                   \<lparr>docs = (docs st)[pos := doc],
                    resultados_relevantes = resultados_relevantes st @ [pos]\<rparr>))))"

text \<open>
  One section of the formatted block, for the object \<open>res\<close>:
  \<^verbatim>\<open>--- DOCUMENTO RANK {res['rank']} ---\<close>, \<^verbatim>\<open>URL/Fonte: {res.get('path', 'N/A')}\<close>,
  the distance with four decimals, and the content. \<open>fmt4\<close> is Python's \<^verbatim>\<open>.4f\<close> rendering
  of a float; the value under \<^verbatim>\<open>distancia_l2\<close> is the float the loop has just stored.
\<close>

definition secao :: "(pyval \<Rightarrow> string) \<Rightarrow> (pyfloat \<Rightarrow> string) \<Rightarrow> pyval \<Rightarrow> py_error + string" where
  "secao fmt fmt4 res =
     (case res of
        PDict d \<Rightarrow>
          (case dict_item d ''rank'' of
             Inl e \<Rightarrow> Inl e
           | Inr rank \<Rightarrow>
          (case dict_item d ''distancia_l2'' of
             Inl e \<Rightarrow> Inl e
           | Inr (PFloat distancia) \<Rightarrow>
               (case dict_item d ''conteudo'' of
                  Inl e \<Rightarrow> Inl e
                | Inr conteudo \<Rightarrow>
                    Inr (''--- DOCUMENTO RANK '' @ py_format fmt rank @ '' ---'' @ [CHR 0x0A]
                         @ ''URL/Fonte: ''
                         @ (case map_of d ''path'' of None \<Rightarrow> ''N/A'' | Some p \<Rightarrow> py_format fmt p)
                         @ [CHR 0x0A]
                         @ ''Dist'' @ [CHR 0xC3, CHR 0xA2] @ ''ncia (Similaridade): '' @ fmt4 distancia
                         @ [CHR 0x0A]
                         @ ''Conte'' @ [CHR 0xC3, CHR 0xBA] @ ''do:'' @ [CHR 0x0A]
                         @ py_format fmt conteudo @ [CHR 0x0A, CHR 0x0A]))
           | Inr _ \<Rightarrow> Inl TypeError))
      | _ \<Rightarrow> Inl TypeError)"

fun formatar :: "(pyval \<Rightarrow> string) \<Rightarrow> (pyfloat \<Rightarrow> string) \<Rightarrow> pyval list \<Rightarrow> nat list \<Rightarrow> py_error + string" where
  "formatar fmt fmt4 objetos [] = Inr []"
| "formatar fmt fmt4 objetos (r # rest) =
     (case secao fmt fmt4 (objetos ! r) of
        Inl e \<Rightarrow> Inl e
      | Inr s \<Rightarrow>
          (case formatar fmt fmt4 objetos rest of
             Inl e \<Rightarrow> Inl e
           | Inr ss \<Rightarrow> Inr (s @ ss)))"

text \<open>
  \<open>encode\<close> is the embedding model and \<open>search\<close> is \<^verbatim>\<open>index.search\<close>: the arrays of
  distances and of ids, one row per query. The result is the formatted block the
  function returns, with the final store and result list.
\<close>

definition buscar_faiss ::
  "(pyval list \<Rightarrow> py_error + ndarray)
     \<Rightarrow> (faiss_index \<Rightarrow> ndarray \<Rightarrow> nat \<Rightarrow> py_error + (pyfloat list list \<times> int list list))
     \<Rightarrow> (pyval \<Rightarrow> string) \<Rightarrow> (pyfloat \<Rightarrow> string)
     \<Rightarrow> string \<Rightarrow> faiss_index \<Rightarrow> pyval list \<Rightarrow> nat \<Rightarrow> py_error + (string \<times> busca_estado)" where
  "buscar_faiss encode search fmt fmt4 query index metadados_docs k =
     (case encode [PStr query] of
        Inl e \<Rightarrow> Inl e
      | Inr query_embedding \<Rightarrow>
     (case search index query_embedding k of
        Inl e \<Rightarrow> Inl e
      | Inr (distancias, indices) \<Rightarrow>
     (case mapear_ids distancias indices [0..<k]
             \<lparr>docs = metadados_docs, resultados_relevantes = []\<rparr> of
        Inl e \<Rightarrow> Inl e
      | Inr st \<Rightarrow>
     (case formatar fmt fmt4 (docs st) (resultados_relevantes st) of
        Inl e \<Rightarrow> Inl e
      | Inr saida_formatada \<Rightarrow> Inr (saida_formatada, st)))))"

text \<open>
  Reading an object of the store: \<open>campo v k\<close> is the value under the key \<open>k\<close> of the
  dictionary \<open>v\<close>; a metadata entry the block can be formatted from is a dictionary
  with a \<^verbatim>\<open>conteudo\<close>.
\<close>

definition campo :: "pyval \<Rightarrow> string \<Rightarrow> pyval option" where
  "campo v k = (case v of PDict d \<Rightarrow> map_of d k | _ \<Rightarrow> None)"

definition passagem_ok :: "pyval \<Rightarrow> bool" where
  "passagem_ok v = (case v of PDict d \<Rightarrow> map_of d ''conteudo'' \<noteq> None | _ \<Rightarrow> False)"

text \<open>
  A slot \<open>i\<close> the loop can handle on a store of \<open>n\<close> objects: both rows have it, and
  its id is \<open>-1\<close> or a position of the store.
\<close>

definition slot_ok :: "nat \<Rightarrow> pyfloat list \<Rightarrow> int list \<Rightarrow> nat \<Rightarrow> bool" where
  "slot_ok n ds ids i =
     (i < length ids \<and> i < length ds \<and> (ids ! i = - 1 \<or> (0 \<le> ids ! i \<and> ids ! i < int n)))"

text \<open>IEEE comparison \<open>\<le>\<close> of two floats.\<close>

fun float_le :: "pyfloat \<Rightarrow> pyfloat \<Rightarrow> bool" where
  "float_le NaN y = False"
| "float_le x NaN = False"
| "float_le NegInf y = True"
| "float_le x PosInf = True"
| "float_le PosInf y = False"
| "float_le x NegInf = False"
| "float_le (Finite a) (Finite b) = (a \<le> b)"
| "float_le (Finite a) NegZero = (a \<le> 0)"
| "float_le NegZero (Finite b) = (0 \<le> b)"
| "float_le NegZero NegZero = True"

text \<open>
  What a flat index of \<open>n\<close> vectors answers to a search for \<open>k\<close> neighbours of one
  query: one row of \<open>k\<close> distances and one of \<open>k\<close> ids; the first \<open>min k n\<close> slots
  hold distinct positions below \<open>n\<close>, by ascending distance, and the others hold \<open>-1\<close>.
\<close>

definition resposta_flat :: "nat \<Rightarrow> nat \<Rightarrow> pyfloat list list \<times> int list list \<Rightarrow> bool" where
  "resposta_flat n k r =
     (case r of
        ([ds], [ids]) \<Rightarrow>
          length ds = k \<and> length ids = k
          \<and> list_all (\<lambda>i. 0 \<le> i \<and> i < int n) (take (min k n) ids)
          \<and> distinct (take (min k n) ids)
          \<and> drop (min k n) ids = replicate (k - min k n) (- 1)
          \<and> sorted_wrt float_le (take (min k n) ds)
      | _ \<Rightarrow> False)"

text \<open>
  The section the retriever owes for one result: the header with the rank, the source,
  the distance to four decimals and the content, blank line included. It is written
  from the rank, the distance and the metadata entry as it was loaded, not from the
  annotated object the loop leaves in the store.
\<close>

definition secao_do_resultado ::
  "(pyval \<Rightarrow> string) \<Rightarrow> (pyfloat \<Rightarrow> string) \<Rightarrow> nat \<Rightarrow> pyfloat \<Rightarrow> pyval \<Rightarrow> string" where
  "secao_do_resultado fmt fmt4 rank distancia entrada =
     ''--- DOCUMENTO RANK '' @ py_format fmt (PInt (int rank)) @ '' ---'' @ [CHR 0x0A]
     @ ''URL/Fonte: ''
     @ (case campo entrada ''path'' of None \<Rightarrow> ''N/A'' | Some p \<Rightarrow> py_format fmt p)
     @ [CHR 0x0A]
     @ ''Dist'' @ [CHR 0xC3, CHR 0xA2] @ ''ncia (Similaridade): '' @ fmt4 distancia
     @ [CHR 0x0A]
     @ ''Conte'' @ [CHR 0xC3, CHR 0xBA] @ ''do:'' @ [CHR 0x0A]
     @ (case campo entrada ''conteudo'' of None \<Rightarrow> [] | Some c \<Rightarrow> py_format fmt c)
     @ [CHR 0x0A, CHR 0x0A]"

text \<open>
  The distance an object of the store is annotated with, and the order of two such
  annotations: both must be there, and compare as floats.
\<close>

definition distancia_anotada :: "pyval \<Rightarrow> pyfloat option" where
  "distancia_anotada v =
     (case campo v ''distancia_l2'' of Some (PFloat x) \<Rightarrow> Some x | _ \<Rightarrow> None)"

definition dist_le :: "pyfloat option \<Rightarrow> pyfloat option \<Rightarrow> bool" where
  "dist_le a b = (case (a, b) of (Some x, Some y) \<Rightarrow> float_le x y | _ \<Rightarrow> False)"

section \<open>LLM.py: the pipeline\<close>

subsection \<open>The world outside the script\<close>

text \<open>
  A request to \<^verbatim>\<open>client.models.generate_content\<close>: the model's name, the \<^verbatim>\<open>contents\<close>
  and the \<^verbatim>\<open>response_mime_type\<close> of its config, when one is given.
\<close>

record requisicao =
  model :: string
  contents :: string
  response_mime_type :: "string option"

text \<open>How \<^verbatim>\<open>subprocess.run(..., check=True)\<close> ends: with the captured output, or raising.\<close>

datatype processo =
    Concluido string
  | CalledProcessError int string
  | FileNotFoundError
  | OutraExcecao py_error

text \<open>
  What the script cannot decide and only receives:
  \<^item> \<open>arquivo_xml\<close>: the file at a path: \<open>None\<close> when \<^verbatim>\<open>os.path.exists\<close> is false, the
    text read, or the exception reading raised;
  \<^item> \<open>gemini\<close>: \<^verbatim>\<open>response.text\<close> of the model's answer (which may be \<^verbatim>\<open>None\<close>), or the
    exception the client raised;
  \<^item> \<open>json_loads\<close>: \<^verbatim>\<open>json.loads\<close>;
  \<^item> \<open>executable\<close> and \<open>subprocess_run\<close>: \<^verbatim>\<open>sys.executable\<close> and \<^verbatim>\<open>subprocess.run\<close>;
  \<^item> \<open>splitext_root\<close>: \<^verbatim>\<open>os.path.splitext(p)[0]\<close> of the platform;
  \<^item> \<open>write_pdf\<close>: whether \<^verbatim>\<open>mistune.html\<close> and \<^verbatim>\<open>HTML(...).write_pdf\<close> go through for a
    file name and a Markdown text.
\<close>

record ambiente =
  arquivo_xml :: "string \<Rightarrow> (py_error + string) option"
  gemini :: "requisicao \<Rightarrow> py_error + string option"
  json_loads :: "string \<Rightarrow> py_error + pyval"
  executable :: string
  subprocess_run :: "string list \<Rightarrow> processo"
  splitext_root :: "string \<Rightarrow> string"
  write_pdf :: "string \<Rightarrow> string \<Rightarrow> bool"

text \<open>
  The lines LLM.py prints that tell an outcome (banners and progress lines are left
  out), by the words they start with:
  \<open>ErroArgumentoAusente\<close> "ERRO: Argumento ausente.";
  \<open>ErroArquivoNaoEncontrado\<close> "ERRO: Arquivo nao encontrado em ...";
  \<open>SucessoXmlLido\<close> "SUCESSO: XML lido."; \<open>ErroLerXml\<close> "ERRO ao ler o arquivo XML: ...";
  \<open>ErroFormatoTermos\<close> "ERRO: Gemini nao retornou os termos no formato esperado.";
  \<open>SucessoTermos\<close> "SUCESSO: Termos extraidos.";
  \<open>ErroGeminiTermos\<close> "ERRO na comunicacao ou processamento do Gemini: ...";
  \<open>SucessoScript\<close> "SUCESSO: Indice FAISS supostamente pronto para o termo.";
  \<open>ErroExecutar\<close> "ERRO ao executar ... (Codigo de saida: ...)";
  \<open>ErroScriptNaoEncontrado\<close> "ERRO: O script ... nao foi encontrado.";
  \<open>AvisoBuscaLimitada\<close> "AVISO: A busca FAISS retornou resultados limitados ou irrelevantes.";
  \<open>SucessoBusca\<close> "SUCESSO: Trechos de lei encontrados e extraidos.";
  \<open>SucessoAnalise\<close> "SUCESSO: Analise fiscal completa gerada.";
  \<open>ErroAnaliseFinal\<close> "ERRO na analise final do Gemini: ...";
  \<open>SucessoPdf\<close> "SUCESSO: PDF gerado com sucesso em: ..."; \<open>ErroPdf\<close> "ERRO ao gerar o PDF: ...";
  \<open>AvisoPdfNaoGerado\<close> "AVISO: A analise final falhou ou retornou um erro. O PDF nao sera
  gerado."; \<open>FluxoInterrompido...\<close> the four "Fluxo interrompido apos falha ..." lines;
  \<open>ProcessamentoConcluido\<close> "PROCESSAMENTO CONCLUIDO COM SUCESSO".
\<close>

datatype msg_llm =
    ErroArgumentoAusente
  | ErroArquivoNaoEncontrado
  | SucessoXmlLido
  | ErroLerXml
  | FluxoInterrompidoXml
  | ErroFormatoTermos
  | SucessoTermos string string
  | ErroGeminiTermos py_error
  | FluxoInterrompidoTermos
  | SucessoScript
  | ErroExecutar int
  | ErroScriptNaoEncontrado
  | FluxoInterrompidoCorpus
  | AvisoBuscaLimitada
  | SucessoBusca
  | FluxoInterrompidoBusca
  | SucessoAnalise
  | ErroAnaliseFinal py_error
  | SucessoPdf string
  | ErroPdf
  | AvisoPdfNaoGerado
  | ProcessamentoConcluido

text \<open>
  What a run does, in order: the lines it prints, the requests it sends to the model,
  the pause, the scripts it runs and the PDFs it asks for (file name and Markdown).
\<close>

datatype evento =
    Imprime msg_llm
  | ChamaGemini requisicao
  | Dorme nat
  | Executa "string list"
  | GeraPdf string string

datatype termino = Retorna | Sai nat | Levanta py_error

subsection \<open>\<^verbatim>\<open>ler_conteudo_xml_bruto\<close>\<close>

definition ler_conteudo_xml_bruto :: "ambiente \<Rightarrow> string \<Rightarrow> string option \<times> evento list" where
  "ler_conteudo_xml_bruto amb caminho_arquivo =
     (case arquivo_xml amb caminho_arquivo of
        None \<Rightarrow> (None, [Imprime ErroArquivoNaoEncontrado])
      | Some (Inl e) \<Rightarrow> (None, [Imprime ErroLerXml])
      | Some (Inr conteudo_xml) \<Rightarrow> (Some conteudo_xml, [Imprime SucessoXmlLido]))"

subsection \<open>\<^verbatim>\<open>extrair_termos_gemini\<close>\<close>

text \<open>
  \<^verbatim>\<open>str.strip()\<close> removes the characters Python counts as whitespace from both ends:
  U+0009 to U+000D, U+001C to U+0020, U+0085, U+00A0, U+1680, U+2000 to U+200A, U+2028,
  U+2029, U+202F, U+205F and U+3000; \<open>espacos\<close> lists their UTF-8 encodings.
\<close>

definition espacos :: "string list" where
  "espacos =
     [[CHR 0x09], [CHR 0x0A], [CHR 0x0B], [CHR 0x0C], [CHR 0x0D],
      [CHR 0x1C], [CHR 0x1D], [CHR 0x1E], [CHR 0x1F], [CHR 0x20],
      [CHR 0xC2, CHR 0x85], [CHR 0xC2, CHR 0xA0], [CHR 0xE1, CHR 0x9A, CHR 0x80],
      [CHR 0xE2, CHR 0x80, CHR 0x80], [CHR 0xE2, CHR 0x80, CHR 0x81],
      [CHR 0xE2, CHR 0x80, CHR 0x82], [CHR 0xE2, CHR 0x80, CHR 0x83],
      [CHR 0xE2, CHR 0x80, CHR 0x84], [CHR 0xE2, CHR 0x80, CHR 0x85],
      [CHR 0xE2, CHR 0x80, CHR 0x86], [CHR 0xE2, CHR 0x80, CHR 0x87],
      [CHR 0xE2, CHR 0x80, CHR 0x88], [CHR 0xE2, CHR 0x80, CHR 0x89],
      [CHR 0xE2, CHR 0x80, CHR 0x8A], [CHR 0xE2, CHR 0x80, CHR 0xA8],
      [CHR 0xE2, CHR 0x80, CHR 0xA9], [CHR 0xE2, CHR 0x80, CHR 0xAF],
      [CHR 0xE2, CHR 0x81, CHR 0x9F], [CHR 0xE3, CHR 0x80, CHR 0x80]]"

text \<open>The number of bytes of the whitespace character \<open>s\<close> starts with (ends with); 0 when it has none.\<close>

definition espaco_inicial :: "string \<Rightarrow> nat" where
  "espaco_inicial s = (case find (\<lambda>w. prefix w s) espacos of None \<Rightarrow> 0 | Some w \<Rightarrow> length w)"

definition espaco_final :: "string \<Rightarrow> nat" where
  "espaco_final s = (case find (\<lambda>w. suffix w s) espacos of None \<Rightarrow> 0 | Some w \<Rightarrow> length w)"

function py_lstrip :: "string \<Rightarrow> string" where
  "py_lstrip s = (if espaco_inicial s = 0 then s else py_lstrip (drop (espaco_inicial s) s))"
  by pat_completeness auto
termination
proof (relation "measure length")
  show "wf (measure length)" by simp
next
  fix s :: string
  assume "espaco_inicial s \<noteq> 0"
  then obtain w where w: "find (\<lambda>w. prefix w s) espacos = Some w" and "length w \<noteq> 0"
    by (auto simp: espaco_inicial_def split: option.splits)
  then have "prefix w s" "w \<noteq> []"
    by (auto simp: find_Some_iff)
  then have "s \<noteq> []" by auto
  then show "(drop (espaco_inicial s) s, s) \<in> measure length"
    using \<open>espaco_inicial s \<noteq> 0\<close> by simp
qed

function py_rstrip :: "string \<Rightarrow> string" where
  "py_rstrip s = (if espaco_final s = 0 then s else py_rstrip (take (length s - espaco_final s) s))"
  by pat_completeness auto
termination
proof (relation "measure length")
  show "wf (measure length)" by simp
next
  fix s :: string
  assume "espaco_final s \<noteq> 0"
  then obtain w where w: "find (\<lambda>w. suffix w s) espacos = Some w" and "length w \<noteq> 0"
    by (auto simp: espaco_final_def split: option.splits)
  then have "suffix w s" "w \<noteq> []"
    by (auto simp: find_Some_iff)
  then have "s \<noteq> []" by auto
  then show "(take (length s - espaco_final s) s, s) \<in> measure length"
    using \<open>espaco_final s \<noteq> 0\<close> by simp
qed

definition py_strip :: "string \<Rightarrow> string" where
  "py_strip s = py_rstrip (py_lstrip s)"

text \<open>The prompt of the term extraction: the text before and after \<^verbatim>\<open>{conteudo_xml_bruto}\<close>.\<close>

definition prompt_termos :: "string \<Rightarrow> string" where
  "prompt_termos conteudo_xml_bruto =
     [CHR 0x0A] @ ''        Analise o conte'' @ [CHR 0xC3, CHR 0xBA]
     @ ''do desta Nota Fiscal Eletr'' @ [CHR 0xC3, CHR 0xB4]
     @ ''nica (XML) e execute as seguintes tarefas:'' @ [CHR 0x0A] @ ''        ''
     @ [CHR 0x0A] @ ''        1. **Descubra os produtos mais relevantes do campo x''
     @ ''Prod e crie um termo conciso para pesquisa (uma a tr'' @ [CHR 0xC3, CHR 0xAA]
     @ ''s palavras) envolvendo nome do produto, opera''
     @ [CHR 0xC3, CHR 0xA7, CHR 0xC3, CHR 0xA3]
     @ ''o para que reduza a quantidade de leis retornadas, deixando ''
     @ ''uma base mais direcionada e eficaz para encontrar poss'' @ [CHR 0xC3, CHR 0xAD]
     @ ''veis diverg'' @ [CHR 0xC3, CHR 0xAA] @ ''ncias fiscais**'' @ [CHR 0x0A]
     @ [CHR 0x0A] @ ''        2. **Crie uma frase curta, por'' @ [CHR 0xC3, CHR 0xA9]
     @ ''m mais completa e descritiva, baseada no conte'' @ [CHR 0xC3, CHR 0xBA]
     @ ''do/produtos da NF para uma busca de similaridade mais refina'' @ ''da (ex: ''
     @ [CHR 0x27] @ ''Legisla'' @ [CHR 0xC3, CHR 0xA7, CHR 0xC3, CHR 0xA3]
     @ ''o sobre ICMS-ST de produtos aliment'' @ [CHR 0xC3, CHR 0xAD] @ ''cios''
     @ [CHR 0x27] @ '').**'' @ [CHR 0x0A] @ ''        '' @ [CHR 0x0A]
     @ ''        Sua resposta DEVE estar estritamente no formato JSON''
     @ '', sem qualquer outro texto adicional:'' @ [CHR 0x0A] @ ''        {'' @ [CHR 0x0A]
     @ ''          '' @ [CHR 0x22] @ ''termo_curto'' @ [CHR 0x22] @ '': '' @ [CHR 0x22]
     @ ''termo conciso'' @ [CHR 0x22] @ '','' @ [CHR 0x0A] @ ''          '' @ [CHR 0x22]
     @ ''termo_completo'' @ [CHR 0x22] @ '': '' @ [CHR 0x22] @ ''frase curta e descritiva''
     @ [CHR 0x22, CHR 0x0A] @ ''        }'' @ [CHR 0x0A] @ ''        '' @ [CHR 0x0A]
     @ ''        Conte'' @ [CHR 0xC3, CHR 0xBA] @ ''do do XML (Bruto):'' @ [CHR 0x0A]
     @ ''        ---'' @ [CHR 0x0A] @ ''        ''
     @ conteudo_xml_bruto
     @ ''... [Conte'' @ [CHR 0xC3, CHR 0xBA] @ ''do Omitido]'' @ [CHR 0x0A]
     @ ''        ---'' @ [CHR 0x0A] @ ''        ''"

text \<open>
  \<^verbatim>\<open>termos.get(k, '').strip()\<close>: a missing key gives the empty text; a value that is not a
  \<^verbatim>\<open>str\<close> has no \<^verbatim>\<open>strip\<close>.
\<close>

definition campo_strip :: "pydict \<Rightarrow> string \<Rightarrow> py_error + string" where
  "campo_strip termos k =
     (case map_of termos k of
        None \<Rightarrow> Inr (py_strip [])
      | Some (PStr s) \<Rightarrow> Inr (py_strip s)
      | Some _ \<Rightarrow> Inl AttributeError)"

text \<open>
  From \<^verbatim>\<open>response.text\<close> to the two trimmed fields: \<^verbatim>\<open>json.loads(None)\<close> raises
  \<^verbatim>\<open>TypeError\<close>, and only a dictionary has \<^verbatim>\<open>get\<close>.
\<close>

definition campos_da_resposta ::
  "(string \<Rightarrow> py_error + pyval) \<Rightarrow> string option \<Rightarrow> py_error + (string \<times> string)" where
  "campos_da_resposta loads texto =
     (case texto of
        None \<Rightarrow> Inl TypeError
      | Some t \<Rightarrow>
          (case loads t of
             Inl e \<Rightarrow> Inl e
           | Inr (PDict termos) \<Rightarrow>
               (case campo_strip termos ''termo_curto'' of
                  Inl e \<Rightarrow> Inl e
                | Inr termo_curto \<Rightarrow>
                    (case campo_strip termos ''termo_completo'' of
                       Inl e \<Rightarrow> Inl e
                     | Inr termo_completo \<Rightarrow> Inr (termo_curto, termo_completo)))
           | Inr _ \<Rightarrow> Inl AttributeError))"

text \<open>
  The result is the pair \<^verbatim>\<open>(termo_curto, termo_completo)\<close>; \<open>None\<close> stands for the pair
  \<^verbatim>\<open>(None, None)\<close> that the \<^verbatim>\<open>except\<close> branch returns.
\<close>

definition requisicao_termos :: "string \<Rightarrow> requisicao" where
  "requisicao_termos conteudo_xml_bruto =
     \<lparr>model = ''gemini-2.5-flash'',
      contents = prompt_termos conteudo_xml_bruto,
      response_mime_type = Some ''application/json''\<rparr>"

definition extrair_termos_gemini :: "ambiente \<Rightarrow> string \<Rightarrow> (string \<times> string) option \<times> evento list" where
  "extrair_termos_gemini amb conteudo_xml_bruto =
     (let req = requisicao_termos conteudo_xml_bruto
      in case gemini amb req of
           Inl e \<Rightarrow> (None, [ChamaGemini req, Imprime (ErroGeminiTermos e)])
         | Inr texto \<Rightarrow>
             (case campos_da_resposta (json_loads amb) texto of
                Inl e \<Rightarrow> (None, [ChamaGemini req, Imprime (ErroGeminiTermos e)])
              | Inr (termo_curto, termo_completo) \<Rightarrow>
                  if termo_curto = [] \<or> termo_completo = []
                  then (None, [ChamaGemini req, Imprime ErroFormatoTermos,
                               Imprime (ErroGeminiTermos ValueError)])
                  else (Some (termo_curto, termo_completo),
                        [ChamaGemini req, Imprime (SucessoTermos termo_curto termo_completo)])))"

text \<open>
  The answers the specification tells the extractor to refuse: no text, a text that
  does not parse, a value that is not an object, or an object in which one of the two
  fields is missing, is not a string, or is empty once trimmed.
\<close>

definition campo_invalido :: "pydict \<Rightarrow> string \<Rightarrow> bool" where
  "campo_invalido termos k =
     (case map_of termos k of
        None \<Rightarrow> True
      | Some (PStr s) \<Rightarrow> py_strip s = []
      | Some _ \<Rightarrow> True)"

definition resposta_invalida :: "(string \<Rightarrow> py_error + pyval) \<Rightarrow> string option \<Rightarrow> bool" where
  "resposta_invalida loads texto =
     (case texto of
        None \<Rightarrow> True
      | Some t \<Rightarrow>
          (case loads t of
             Inl e \<Rightarrow> True
           | Inr (PDict termos) \<Rightarrow>
               campo_invalido termos ''termo_curto'' \<or> campo_invalido termos ''termo_completo''
           | Inr _ \<Rightarrow> True))"

subsection \<open>\<^verbatim>\<open>executar_script_simples\<close> and \<^verbatim>\<open>executar_busca_faiss\<close>\<close>

definition executar_script_simples ::
  "ambiente \<Rightarrow> string \<Rightarrow> string \<Rightarrow> (py_error + string option) \<times> evento list" where
  "executar_script_simples amb script argumento =
     (let comando = [executable amb, script, argumento]
      in case subprocess_run amb comando of
           Concluido out \<Rightarrow> (Inr (Some out), [Executa comando, Imprime SucessoScript])
         | CalledProcessError rc err \<Rightarrow> (Inr None, [Executa comando, Imprime (ErroExecutar rc)])
         | FileNotFoundError \<Rightarrow> (Inr None, [Executa comando, Imprime ErroScriptNaoEncontrado])
         | OutraExcecao e \<Rightarrow> (Inl e, [Executa comando]))"

definition executar_busca_faiss ::
  "ambiente \<Rightarrow> string \<Rightarrow> string \<Rightarrow> string \<Rightarrow> (py_error + string option) \<times> evento list" where
  "executar_busca_faiss amb script termo_faiss query_completa =
     (let comando = [executable amb, script, termo_faiss, query_completa]
      in case subprocess_run amb comando of
           Concluido resultados_busca \<Rightarrow>
             (Inr (Some resultados_busca),
              [Executa comando]
              @ (if sublist ''Nenhum resultado relevante encontrado'' resultados_busca
                 then [Imprime AvisoBuscaLimitada] else [])
              @ [Imprime SucessoBusca])
         | CalledProcessError rc err \<Rightarrow>
             (Inr (Some (''ERRO NA BUSCA FAISS:'' @ [CHR 0x0A] @ err)),
              [Executa comando, Imprime (ErroExecutar rc)])
         | FileNotFoundError \<Rightarrow> (Inr None, [Executa comando, Imprime ErroScriptNaoEncontrado])
         | OutraExcecao e \<Rightarrow> (Inl e, [Executa comando]))"

subsection \<open>\<^verbatim>\<open>analisar_resultados_gemini\<close>\<close>

text \<open>
  The prompt of the final analysis, as the f-string of the source builds it: the
  string has no replacement field, so neither argument of the function enters it.
\<close>

definition prompt_analise :: "string \<Rightarrow> string \<Rightarrow> string" where
  "prompt_analise conteudo_xml_bruto resultados_busca =
     [CHR 0x0A] @ ''        Abaixo est'' @ [CHR 0xC3, CHR 0xA3] @ ''o o conte''
     @ [CHR 0xC3, CHR 0xBA] @ ''do BRUTO de uma Nota Fiscal Eletr'' @ [CHR 0xC3, CHR 0xB4]
     @ ''nica (XML) e um trecho de leis relevantes encontrado (FAISS)'' @ ''.'' @ [CHR 0x0A]
     @ ''        '' @ [CHR 0x0A] @ ''        Sua tarefa '' @ [CHR 0xC3, CHR 0xA9]
     @ '' gerar uma an'' @ [CHR 0xC3, CHR 0xA1]
     @ ''lise detalhada ESTRITAMENTE no formato MARKDOWN, usando t'' @ [CHR 0xC3, CHR 0xAD]
     @ ''tulos (#), subt'' @ [CHR 0xC3, CHR 0xAD] @ ''tulos (##) e listas.'' @ [CHR 0x0A]
     @ ''        '' @ [CHR 0x0A]
     @ ''        1. **Resumo da NF-e:** Breve resumo da nota fiscal (''
     @ ''o que ela trata).'' @ [CHR 0x0A] @ ''        2. **Relev'' @ [CHR 0xC3, CHR 0xA2]
     @ ''ncia Legal:** Indique se o trecho de lei parece ser relevant'' @ ''e ou aplic''
     @ [CHR 0xC3, CHR 0xA1] @ ''vel '' @ [CHR 0xC3, CHR 0xA0] @ '' NF-e com link.''
     @ [CHR 0x0A] @ ''        3. **Trecho de Lei Chave:** Cite o trecho da lei que''
     @ '' voc'' @ [CHR 0xC3, CHR 0xAA] @ '' considerou mais importante ou aplic''
     @ [CHR 0xC3, CHR 0xA1] @ ''vel.'' @ [CHR 0x0A]
     @ ''        4. **Oportunidade de Economia/Benef'' @ [CHR 0xC3, CHR 0xAD]
     @ ''cio:** O mais importante: Cite dicas para aplica''
     @ [CHR 0xC3, CHR 0xA7, CHR 0xC3, CHR 0xA3]
     @ ''o de lei para reduzir recolhimento ou obter algum benef'' @ [CHR 0xC3, CHR 0xAD]
     @ ''cio legal e mensurar o quanto economiza com esta a''
     @ [CHR 0xC3, CHR 0xA7, CHR 0xC3, CHR 0xA3] @ ''o. Mostrar se poss''
     @ [CHR 0xC3, CHR 0xAD] @ ''vel em R$.'' @ [CHR 0x0A] @ ''        '' @ [CHR 0x0A]
     @ ''        Gere a an'' @ [CHR 0xC3, CHR 0xA1]
     @ ''lise SOMENTE em formato Markdown, come'' @ [CHR 0xC3, CHR 0xA7] @ ''ando com um t''
     @ [CHR 0xC3, CHR 0xAD] @ ''tulo de n'' @ [CHR 0xC3, CHR 0xAD] @ ''vel 1.'' @ [CHR 0x0A]
     @ ''        ''"

text \<open>\<^verbatim>\<open>"# Erro de An\<close>a\<^verbatim>\<open>lise\nAn\<close>a\<^verbatim>\<open>lise final n\<close>a\<^verbatim>\<open>o p\<close>o\<^verbatim>\<open>de ser conclu\<close>i\<^verbatim>\<open>da."\<close>, the text returned when the call fails.\<close>

definition erro_de_analise :: string where
  "erro_de_analise = ''Erro de An'' @ [CHR 0xC3, CHR 0xA1] @ ''lise''"

definition analise_de_erro :: string where
  "analise_de_erro =
     ''# '' @ erro_de_analise @ [CHR 0x0A] @ ''An'' @ [CHR 0xC3, CHR 0xA1] @ ''lise final n''
     @ [CHR 0xC3, CHR 0xA3] @ ''o p'' @ [CHR 0xC3, CHR 0xB4] @ ''de ser conclu''
     @ [CHR 0xC3, CHR 0xAD] @ ''da.''"

definition requisicao_analise :: "string \<Rightarrow> string \<Rightarrow> requisicao" where
  "requisicao_analise conteudo_xml_bruto resultados_busca =
     \<lparr>model = ''gemini-2.5-flash'',
      contents = prompt_analise conteudo_xml_bruto resultados_busca,
      response_mime_type = None\<rparr>"

text \<open>
  With no text in the answer, \<^verbatim>\<open>analise_markdown[:500]\<close> raises \<^verbatim>\<open>TypeError\<close> after the
  success line is printed, and the handler returns the error text.
\<close>

definition analisar_resultados_gemini :: "ambiente \<Rightarrow> string \<Rightarrow> string \<Rightarrow> string \<times> evento list" where
  "analisar_resultados_gemini amb conteudo_xml_bruto resultados_busca =
     (let req = requisicao_analise conteudo_xml_bruto resultados_busca
      in case gemini amb req of
           Inl e \<Rightarrow> (analise_de_erro, [ChamaGemini req, Imprime (ErroAnaliseFinal e)])
         | Inr None \<Rightarrow>
             (analise_de_erro,
              [ChamaGemini req, Imprime SucessoAnalise, Imprime (ErroAnaliseFinal TypeError)])
         | Inr (Some analise_markdown) \<Rightarrow>
             (analise_markdown, [ChamaGemini req, Imprime SucessoAnalise]))"

subsection \<open>\<^verbatim>\<open>gerar_pdf\<close>\<close>

definition gerar_pdf :: "ambiente \<Rightarrow> string \<Rightarrow> string \<Rightarrow> bool \<times> evento list" where
  "gerar_pdf amb conteudo_markdown nome_arquivo_xml =
     (let nome_pdf = splitext_root amb nome_arquivo_xml @ ''_analise.pdf''
      in if write_pdf amb nome_pdf conteudo_markdown
         then (True, [GeraPdf nome_pdf conteudo_markdown, Imprime (SucessoPdf nome_pdf)])
         else (False, [GeraPdf nome_pdf conteudo_markdown, Imprime ErroPdf]))"

subsection \<open>\<^verbatim>\<open>main\<close>\<close>

text \<open>Stages 4 and 5 of \<^verbatim>\<open>main\<close>: the analysis, and the PDF when the analysis passes the test.\<close>

definition etapas_analise_e_pdf :: "ambiente \<Rightarrow> string \<Rightarrow> string \<Rightarrow> string \<Rightarrow> evento list" where
  "etapas_analise_e_pdf amb conteudo_xml_bruto resultados_busca arquivo =
     (case analisar_resultados_gemini amb conteudo_xml_bruto resultados_busca of
        (analise_final_markdown, ev4) \<Rightarrow>
          if analise_final_markdown \<noteq> [] \<and> \<not> sublist erro_de_analise analise_final_markdown
          then ev4 @ snd (gerar_pdf amb analise_final_markdown arquivo)
               @ [Imprime ProcessamentoConcluido]
          else ev4 @ [Imprime AvisoPdfNaoGerado, Imprime ProcessamentoConcluido])"

text \<open>Stages 2 to 5: what \<^verbatim>\<open>main\<close> does with the two terms.\<close>

definition etapas_com_termos ::
  "ambiente \<Rightarrow> string \<Rightarrow> string \<Rightarrow> string \<Rightarrow> string \<Rightarrow> termino \<times> evento list" where
  "etapas_com_termos amb arquivo conteudo_xml_bruto termo_curto termo_completo =
     (case executar_script_simples amb ''Legislacao.py'' termo_curto of
        (Inl e, ev2) \<Rightarrow> (Levanta e, [Dorme 3] @ ev2)
      | (Inr None, ev2) \<Rightarrow> (Sai 1, [Dorme 3] @ ev2 @ [Imprime FluxoInterrompidoCorpus])
      | (Inr (Some legislacao_output), ev2) \<Rightarrow>
          (case executar_busca_faiss amb ''BuscaFaiss.py'' termo_curto termo_completo of
             (Inl e, ev3) \<Rightarrow> (Levanta e, [Dorme 3] @ ev2 @ ev3)
           | (Inr None, ev3) \<Rightarrow>
               (Sai 1, [Dorme 3] @ ev2 @ ev3 @ [Imprime FluxoInterrompidoBusca])
           | (Inr (Some resultados_busca), ev3) \<Rightarrow>
               if sublist ''ERRO NA BUSCA FAISS'' resultados_busca
               then (Sai 1, [Dorme 3] @ ev2 @ ev3 @ [Imprime FluxoInterrompidoBusca])
               else (Retorna,
                     [Dorme 3] @ ev2 @ ev3
                     @ etapas_analise_e_pdf amb conteudo_xml_bruto resultados_busca arquivo)))"

definition main :: "ambiente \<Rightarrow> string list \<Rightarrow> termino \<times> evento list" where
  "main amb argv =
     (if length argv < 2 then (Sai 1, [Imprime ErroArgumentoAusente])
      else
        (let arquivo = argv ! 1 in
         case ler_conteudo_xml_bruto amb arquivo of
           (None, ev0) \<Rightarrow> (Sai 1, ev0 @ [Imprime FluxoInterrompidoXml])
         | (Some conteudo_xml_bruto, ev0) \<Rightarrow>
             if conteudo_xml_bruto = [] then (Sai 1, ev0 @ [Imprime FluxoInterrompidoXml])
             else
               (case extrair_termos_gemini amb conteudo_xml_bruto of
                  (None, ev1) \<Rightarrow> (Sai 1, ev0 @ ev1 @ [Imprime FluxoInterrompidoTermos])
                | (Some (termo_curto, termo_completo), ev1) \<Rightarrow>
                    if termo_curto = [] \<or> termo_completo = []
                    then (Sai 1, ev0 @ ev1 @ [Imprime FluxoInterrompidoTermos])
                    else
                      (case etapas_com_termos amb arquivo conteudo_xml_bruto
                              termo_curto termo_completo of
                         (fim, ev) \<Rightarrow> (fim, ev0 @ ev1 @ ev)))))"

section \<open>Concrete inputs\<close>

text \<open>
  A payload with one \<^verbatim>\<open>ResultRows\<close> list at depth 3 (list, dictionary, dictionary): two
  rows with both fields, the first of them holding a \<^verbatim>\<open>ResultRows\<close> list of its own,
  and one row without \<^verbatim>\<open>Path\<close>.
\<close>

definition exemplo_profundidade_3 :: pyval where
  "exemplo_profundidade_3 =
     PList [PDict [(''PrimaryQueryResult'',
       PDict [(''ResultRows'',
         PList [PDict [(''Path'', PStr ''https://a''),
                       (''PublishingPageContentOWSHTML'', PStr ''<p>A</p>''),
                       (''Anexos'', PDict [(''ResultRows'',
                          PList [PDict [(''Path'', PStr ''https://x''),
                                        (''PublishingPageContentOWSHTML'', PStr ''<p>X</p>'')]])])],
                PDict [(''PublishingPageContentOWSHTML'', PStr ''<p>B</p>'')],
                PDict [(''Path'', PStr ''https://c''),
                       (''PublishingPageContentOWSHTML'', PStr ''<p>C</p>'')]])])]]"


text \<open>A directory with no file, where every name can be written, and nothing printed yet.\<close>

definition mundo_vazio :: mundo where
  "mundo_vazio = \<lparr>arquivos = (\<lambda>nome. None), gravavel = (\<lambda>nome. True), saida = []\<rparr>"

text \<open>
  An invoice file \<^verbatim>\<open>nota.xml\<close> and a model that answers the term request with
  \<^verbatim>\<open>{"termo_curto": "  ", "termo_completo": "Legislacao sobre ICMS"}\<close>, which
  \<^verbatim>\<open>json.loads\<close> reads as the object of these two fields.
\<close>

definition resposta_termo_vazio :: string where
  "resposta_termo_vazio =
     ''{'' @ [CHR 0x22] @ ''termo_curto'' @ [CHR 0x22] @ '': '' @ [CHR 0x22] @ ''  '' @ [CHR 0x22]
     @ '', '' @ [CHR 0x22] @ ''termo_completo'' @ [CHR 0x22] @ '': '' @ [CHR 0x22]
     @ ''Legislacao sobre ICMS'' @ [CHR 0x22] @ ''}''"

definition ambiente_termo_vazio :: ambiente where
  "ambiente_termo_vazio =
     \<lparr>arquivo_xml = (\<lambda>p. if p = ''nota.xml'' then Some (Inr ''<NFe/>'') else None),
      gemini = (\<lambda>r. Inr (Some resposta_termo_vazio)),
      json_loads = (\<lambda>s. if s = resposta_termo_vazio
                          then Inr (PDict [(''termo_curto'', PStr ''  ''),
                                           (''termo_completo'', PStr ''Legislacao sobre ICMS'')])
                          else Inl JSONDecodeError),
      executable = ''python3'',
      subprocess_run = (\<lambda>c. FileNotFoundError),
      splitext_root = (\<lambda>p. if p = ''nota.xml'' then ''nota'' else p),
      write_pdf = (\<lambda>n m. True)\<rparr>"

text \<open>The same surroundings with a model that gives the answer \<open>r\<close> to every request.\<close>

definition ambiente_de_resposta :: "py_error + string option \<Rightarrow> ambiente" where
  "ambiente_de_resposta r =
     \<lparr>arquivo_xml = (\<lambda>p. if p = ''nota.xml'' then Some (Inr ''<NFe/>'') else None),
      gemini = (\<lambda>q. r),
      json_loads = (\<lambda>s. Inl JSONDecodeError),
      executable = ''python3'',
      subprocess_run = (\<lambda>c. FileNotFoundError),
      splitext_root = (\<lambda>p. if p = ''nota.xml'' then ''nota'' else p),
      write_pdf = (\<lambda>n m. True)\<rparr>"

text \<open>
  A loaded corpus of two passages, an embedding model and a flat index that answers a
  search for two neighbours with both positions, and a search for three with both
  positions and one unfilled slot.
\<close>

definition metadados_exemplo :: "pyval list" where
  "metadados_exemplo =
     [PDict [(''id'', PInt 0), (''path'', PStr ''https://a''), (''conteudo'', PStr ''texto A'')],
      PDict [(''id'', PInt 1), (''path'', PStr ''https://c''), (''conteudo'', PStr ''texto C'')]]"

definition indice_exemplo :: faiss_index where
  "indice_exemplo = \<lparr>dimensao = 2, xb = [[Finite 1, Finite 0], [Finite 0, Finite 1]]\<rparr>"

definition encode_exemplo :: "pyval list \<Rightarrow> py_error + ndarray" where
  "encode_exemplo textos = Inr (map (\<lambda>t. [Finite 0, Finite 1]) textos)"

definition search_exemplo ::
  "faiss_index \<Rightarrow> ndarray \<Rightarrow> nat \<Rightarrow> py_error + (pyfloat list list \<times> int list list)" where
  "search_exemplo index q k =
     (if k = 2 then Inr ([[Finite 0, Finite 2]], [[1, 0]])
      else if k = 3 then Inr ([[Finite 0, Finite 2, PosInf]], [[1, 0, - 1]])
      else Inl OtherError)"

text \<open>
  The renderings of the numbers that occur in the example: \<^verbatim>\<open>{rank}\<close> for the ranks 1 and
  2, and \<^verbatim>\<open>{distancia_l2:.4f}\<close> for the distances 0 and 2.
\<close>

definition fmt_exemplo :: "pyval \<Rightarrow> string" where
  "fmt_exemplo v =
     (case v of PInt i \<Rightarrow> (if i = 1 then ''1'' else if i = 2 then ''2'' else ''?'') | _ \<Rightarrow> ''?'')"

definition fmt4_exemplo :: "pyfloat \<Rightarrow> string" where
  "fmt4_exemplo x =
     (case x of
        Finite r \<Rightarrow> (if r = 0 then ''0.0000'' else if r = 2 then ''2.0000'' else ''?'')
      | _ \<Rightarrow> ''?'')"

section \<open>Row extraction\<close>



lemma processar_rows_dicts:
  "list_all is_dict rows \<Longrightarrow>
   processar_rows fmt rows acc = Inr (acc @ passages_from fmt (length acc) rows)"
proof (induction rows arbitrary: acc)
  case Nil
  then show ?case by (simp add: passages_from_def)
next
  case (Cons row rows)
  then show ?case
    by (cases row) (auto simp: passages_from_def Let_def enumerate_eq_zip upt_rec[of "length acc"])
qed

lemma processar_rows_not_dicts:
  "\<not> list_all is_dict rows \<Longrightarrow> processar_rows fmt rows acc = Inl AttributeError"
  by (induction rows arbitrary: acc) (auto split: pyval.splits simp: Let_def)

lemma id_passage_of:
  "row_valida row \<Longrightarrow> dict_get (passage_of fmt (i, row)) ''id'' = PInt (int i)"
  by (cases row) (simp_all add: dict_get_def)

lemma ids_passages_from:
  "map (\<lambda>d. dict_get d ''id'') (passages_from fmt n rows)
     = map (\<lambda>i. PInt (int i)) [n..<n + length (filter row_valida rows)]"
proof -
  let ?xs = "filter row_valida rows"
  have "dict_get (passage_of fmt p) ''id'' = PInt (int (fst p))"
    if "p \<in> set (enumerate n ?xs)" for p
  proof -
    from that have "snd p \<in> set ?xs"
      by (metis enumerate_eq_zip prod.collapse set_zip_rightD)
    then have "row_valida (snd p)" by simp
    then show ?thesis
      using id_passage_of[of "snd p" fmt "fst p"] by simp
  qed
  then have "map (\<lambda>d. dict_get d ''id'') (map (passage_of fmt) (enumerate n ?xs))
          = map (\<lambda>p. PInt (int (fst p))) (enumerate n ?xs)"
    by simp
  also have "\<dots> = map (\<lambda>i. PInt (int i)) (map fst (enumerate n ?xs))"
    by (simp only: map_map comp_def)
  also have "\<dots> = map (\<lambda>i. PInt (int i)) [n..<n + length ?xs]"
    by (simp only: map_fst_enumerate)
  finally show ?thesis
    by (simp add: passages_from_def)
qed




section \<open>Parsing the portal's answer\<close>

lemma length_takeWhile_take:
  "length (takeWhile P (take m s)) = min m (length (takeWhile P s))"
proof (induction s arbitrary: m)
  case Nil
  then show ?case by simp
next
  case (Cons x s)
  then show ?case by (cases m) simp_all
qed

lemma drop_take_dropWhile:
  "drop (length (takeWhile P s)) (take m s) = dropWhile P (take m s)"
proof -
  have "dropWhile P (take m s) = drop (min m (length (takeWhile P s))) (take m s)"
    by (simp add: dropWhile_eq_drop length_takeWhile_take)
  also have "\<dots> = drop (length (takeWhile P s)) (take m s)"
    by (cases "m \<le> length (takeWhile P s)") (simp_all add: min_def)
  finally show ?thesis by simp
qed

lemma take_rev_dropWhile:
  "take (length s - length (takeWhile P (rev s))) s = rev (dropWhile P (rev s))"
proof -
  have "rev s = takeWhile P (rev s) @ dropWhile P (rev s)" by simp
  then have "s = rev (dropWhile P (rev s)) @ rev (takeWhile P (rev s))"
    by (metis rev_append rev_rev_ident)
  moreover have "length (rev (dropWhile P (rev s))) = length s - length (takeWhile P (rev s))"
    by (simp add: dropWhile_eq_drop)
  ultimately show ?thesis
    by (metis append_eq_conv_conj)
qed

lemma length_takeWhile_lt:
  "x \<in> set xs \<Longrightarrow> \<not> P x \<Longrightarrow> length (takeWhile P xs) < length xs"
  by (induction xs) auto

lemma texto_isolado_com_par:
  assumes "CHR ''['' \<in> set body" and "CHR '']'' \<in> set body"
  shows "texto_isolado body =
           dropWhile (\<lambda>c. c \<noteq> CHR ''['') (rev (dropWhile (\<lambda>c. c \<noteq> CHR '']'') (rev body)))"
proof -
  let ?t = "length (takeWhile (\<lambda>c. c \<noteq> CHR '']'') (rev body))"
  have t: "?t < length body"
    using assms(2) length_takeWhile_lt[of "CHR '']''" "rev body" "\<lambda>c. c \<noteq> CHR '']''"] by simp
  have "nat (int (length body) - 1 - int ?t + 1) = length body - ?t"
    using t by simp
  then have "texto_isolado body =
      drop (length (takeWhile (\<lambda>c. c \<noteq> CHR ''['') body)) (take (length body - ?t) body)"
    using assms t by (simp add: texto_isolado_def py_find_def py_rfind_def py_slice_def Let_def)
  then have "texto_isolado body =
      dropWhile (\<lambda>c. c \<noteq> CHR ''['') (take (length body - ?t) body)"
    by (simp only: drop_take_dropWhile)
  then show ?thesis
    by (simp only: take_rev_dropWhile)
qed

lemma texto_isolado_sem_par:
  "CHR ''['' \<notin> set body \<or> CHR '']'' \<notin> set body \<Longrightarrow> texto_isolado body = body"
  by (auto simp: texto_isolado_def py_find_def py_rfind_def Let_def)

lemma legislacao_main_parse_falha:
  "loads (texto_isolado body) = Inl e \<Longrightarrow>
   legislacao_main loads fmt encode termo (Some body) w =
     (None, imprime [if e = JSONDecodeError then ErroDesserializacaoJSON
                     else ErroInesperadoDesserializar] w)"
  by (cases e) (simp_all add: legislacao_main_def desserializar_json_resistente_def corpus_de_dados_def)

text \<open>
  C4 (as amended). When the body holds both a \<^verbatim>\<open>[\<close> and a \<^verbatim>\<open>]\<close>, the text parsed is the
  slice from the first \<^verbatim>\<open>[\<close> to the last \<^verbatim>\<open>]\<close> (empty when the last \<^verbatim>\<open>]\<close> comes before the
  first \<^verbatim>\<open>[\<close>); a body without one of them is parsed whole. Whenever the parse raises,
  the run ends normally, prints the error line of the handler that caught it and leaves
  the files as they were.
\<close>

theorem parse_da_resposta:
  "texto_isolado body =
     (if CHR ''['' \<in> set body \<and> CHR '']'' \<in> set body
      then dropWhile (\<lambda>c. c \<noteq> CHR ''['') (rev (dropWhile (\<lambda>c. c \<noteq> CHR '']'') (rev body)))
      else body)
   \<and> (loads (texto_isolado body) = Inl e \<longrightarrow>
        (\<exists>w'. legislacao_main loads fmt encode termo (Some body) w = (None, w')
              \<and> arquivos w' = arquivos w
              \<and> saida w' = saida w @ [if e = JSONDecodeError then ErroDesserializacaoJSON
                                       else ErroInesperadoDesserializar]))"
  using texto_isolado_com_par[of body] texto_isolado_sem_par[of body]
    legislacao_main_parse_falha[of loads body e fmt encode termo w]
  by (auto simp: imprime_def)

theorem parse_da_resposta_witness:
  "(\<lambda>s. Inl JSONDecodeError) (texto_isolado ''<html>403 Forbidden</html>'') = (Inl JSONDecodeError :: py_error + pyval)
   \<and> texto_isolado ''<html>403 Forbidden</html>'' = ''<html>403 Forbidden</html>''
   \<and> texto_isolado ''x = [1, 2]; y = [3];'' = ''[1, 2]; y = [3]''
   \<and> (\<exists>w'. legislacao_main (\<lambda>s. Inl JSONDecodeError) (\<lambda>v. []) (\<lambda>ts. Inl OtherError) ''icms''
              (Some ''<html>403 Forbidden</html>'') mundo_vazio = (None, w')
            \<and> arquivos w' = (\<lambda>nome. None)
            \<and> saida w' = [ErroDesserializacaoJSON])"
  using parse_da_resposta[of "''<html>403 Forbidden</html>''" "\<lambda>s. Inl JSONDecodeError" JSONDecodeError
      "\<lambda>v. []" "\<lambda>ts. Inl OtherError" "''icms''" mundo_vazio]
    parse_da_resposta[of "''x = [1, 2]; y = [3];''" "\<lambda>s. Inl JSONDecodeError" JSONDecodeError
      "\<lambda>v. []" "\<lambda>ts. Inl OtherError" "''icms''" mundo_vazio]
  by (simp add: mundo_vazio_def)

text \<open>
  C4 as stated fails on the body \<^verbatim>\<open>{}\<close>: it has no bracket, both searches give \<open>-1\<close>, and
  the whole body goes to the parser; with a parser that reads \<^verbatim>\<open>{}\<close> as the empty
  dictionary (as \<^verbatim>\<open>json.loads\<close> does) the run prints nothing, so no parse failure is
  reported.
\<close>

theorem corpo_sem_colchetes_analisado_inteiro:
  "py_find (CHR ''['') ''{}'' = - 1 \<and> py_rfind (CHR '']'') ''{}'' = - 1
   \<and> texto_isolado ''{}'' = ''{}''
   \<and> legislacao_main (\<lambda>s. if s = ''{}'' then Inr (PDict []) else Inl JSONDecodeError)
        (\<lambda>v. []) (\<lambda>ts. Inl OtherError) ''icms'' (Some ''{}'') mundo_vazio = (None, mundo_vazio)"
  by (simp add: py_find_def py_rfind_def texto_isolado_def legislacao_main_def
      desserializar_json_resistente_def corpus_de_dados_def imprime_def mundo_vazio_def)

section \<open>A run that extracts no row\<close>

lemma buscar_falsy:
  "\<not> truthy v \<Longrightarrow> buscar_result_rows fmt v acc = Inr acc"
  by (cases v) simp_all

text \<open>
  A payload that is truthy and yields no row: the run prints the count line and the
  warning, writes no file and ends normally.
\<close>

lemma zero_rows_com_aviso:
  assumes "loads (texto_isolado body) = Inr dados_json"
      and "truthy dados_json"
      and "extrair_resultados_recursivamente fmt dados_json = Inr []"
  shows "\<exists>w'. legislacao_main loads fmt encode termo (Some body) w = (None, w')
              \<and> arquivos w' = arquivos w
              \<and> saida w' = saida w @ [ExtracaoConcluida 0, NenhumaLinha]"
  using assms
  by (simp add: legislacao_main_def desserializar_json_resistente_def corpus_de_dados_def imprime_def)

text \<open>
  C8. A run that extracts zero rows is to skip the index build, print the warning, write
  no file and end normally. The code does not print the warning when the parsed payload
  is \<^verbatim>\<open>[]\<close>: the test \<^verbatim>\<open>if dados_json:\<close> has no \<^verbatim>\<open>else\<close>, and an empty payload that was parsed
  well takes the silent branch meant for a parse that failed and was reported. The run on
  the body \<^verbatim>\<open>[]\<close> extracts zero rows and leaves the world as it was, nothing printed; the
  run on the body \<^verbatim>\<open>[[]]\<close>, a truthy payload with zero rows as well, prints the count line
  and the warning. Neither writes a file, neither ends with an error.
\<close>

theorem payload_vazio_sem_aviso:
  "extrair_resultados_recursivamente (\<lambda>v. []) (PList []) = Inr []
   \<and> texto_isolado ''[]'' = ''[]''
   \<and> legislacao_main (\<lambda>s. if s = ''[]'' then Inr (PList []) else Inl JSONDecodeError)
        (\<lambda>v. []) (\<lambda>ts. Inl OtherError) ''icms'' (Some ''[]'') mundo_vazio = (None, mundo_vazio)
   \<and> extrair_resultados_recursivamente (\<lambda>v. []) (PList [PList []]) = Inr []
   \<and> texto_isolado ''[[]]'' = ''[[]]''
   \<and> legislacao_main (\<lambda>s. if s = ''[[]]'' then Inr (PList [PList []]) else Inl JSONDecodeError)
        (\<lambda>v. []) (\<lambda>ts. Inl OtherError) ''icms'' (Some ''[[]]'') mundo_vazio
       = (None, mundo_vazio\<lparr>saida := [ExtracaoConcluida 0, NenhumaLinha]\<rparr>)"
  by (simp add: extrair_resultados_recursivamente_def corpus_de_dados_def mundo_vazio_def
      texto_isolado_def py_find_def py_rfind_def py_slice_def legislacao_main_def
      desserializar_json_resistente_def imprime_def)

section \<open>The index and its metadata\<close>

lemma passages_from_append:
  "passages_from fmt n (r1 @ r2) =
     passages_from fmt n r1 @ passages_from fmt (n + length (filter row_valida r1)) r2"
  by (simp add: passages_from_def enumerate_append_eq)

lemma length_passages_from:
  "length (passages_from fmt n rows) = length (filter row_valida rows)"
  by (simp add: passages_from_def)

lemma processar_rows_shape:
  assumes "processar_rows fmt rows acc = Inr res"
  shows "res = acc @ passages_from fmt (length acc) rows"
proof (cases "list_all is_dict rows")
  case True
  from processar_rows_dicts[OF True, of fmt acc] assms show ?thesis by simp
next
  case False
  from processar_rows_not_dicts[OF False, of fmt acc] assms show ?thesis by simp
qed

lemma shape_compose:
  assumes "acc' = acc @ passages_from fmt (length acc) r1"
      and "res = acc' @ passages_from fmt (length acc') r2"
  shows "res = acc @ passages_from fmt (length acc) (r1 @ r2)"
  using assms by (simp add: passages_from_append length_passages_from)

lemma buscar_shape:
  "\<forall>res. buscar_result_rows fmt v acc = Inr res \<longrightarrow>
      (\<exists>rows. res = acc @ passages_from fmt (length acc) rows)"
  "\<forall>res. buscar_items fmt kvs acc = Inr res \<longrightarrow>
      (\<exists>rows. res = acc @ passages_from fmt (length acc) rows)"
  "\<forall>res. buscar_elementos fmt xs acc = Inr res \<longrightarrow>
      (\<exists>rows. res = acc @ passages_from fmt (length acc) rows)"
proof (induction fmt v acc and fmt kvs acc and fmt xs acc
       rule: buscar_result_rows_buscar_items_buscar_elementos.induct)
  case (8 fmt acc)
  show ?case by (auto intro: exI[where x = "[]"] simp: passages_from_def)
next
  case (10 fmt acc)
  show ?case by (auto intro: exI[where x = "[]"] simp: passages_from_def)
next
  case (9 fmt chave valor rest acc)
  show ?case
  proof (intro allI impI)
    fix res
    assume r: "buscar_items fmt ((chave, valor) # rest) acc = Inr res"
    show "\<exists>rows. res = acc @ passages_from fmt (length acc) rows"
    proof (cases "\<exists>rows. valor = PList rows \<and> chave = ''ResultRows''")
      case True
      then obtain rows where v: "valor = PList rows" "chave = ''ResultRows''" by blast
      with r have "processar_rows fmt rows acc = Inr res" by simp
      from processar_rows_shape[OF this] show ?thesis by blast
    next
      case False
      then have eq: "buscar_items fmt ((chave, valor) # rest) acc =
          (case buscar_result_rows fmt valor acc of
             Inl e \<Rightarrow> Inl e
           | Inr acc' \<Rightarrow> buscar_items fmt rest acc')"
        by (cases valor) auto
      with r obtain acc' where a1: "buscar_result_rows fmt valor acc = Inr acc'"
        and a2: "buscar_items fmt rest acc' = Inr res"
        by (auto split: sum.splits)
      have ih1: "\<exists>rows. acc' = acc @ passages_from fmt (length acc) rows"
      proof (cases valor)
        case (PList rows)
        with False have ne: "chave \<noteq> ''ResultRows''" by simp
        from "9.IH"(11)[OF PList ne] a1 show ?thesis by blast
      next
        case PNone
        from "9.IH"(1)[OF PNone] a1 show ?thesis by blast
      next
        case (PBool b)
        from "9.IH"(3)[OF PBool] a1 show ?thesis by blast
      next
        case (PInt i)
        from "9.IH"(5)[OF PInt] a1 show ?thesis by blast
      next
        case (PFloat f)
        from "9.IH"(7)[OF PFloat] a1 show ?thesis by blast
      next
        case (PStr s)
        from "9.IH"(9)[OF PStr] a1 show ?thesis by blast
      next
        case (PDict d)
        from "9.IH"(13)[OF PDict] a1 show ?thesis by blast
      qed
      have ih2: "\<exists>rows. res = acc' @ passages_from fmt (length acc') rows"
      proof (cases valor)
        case (PList rows)
        with False have ne: "chave \<noteq> ''ResultRows''" by simp
        from "9.IH"(12)[OF PList ne a1] a2 show ?thesis by blast
      next
        case PNone
        from "9.IH"(2)[OF PNone a1] a2 show ?thesis by blast
      next
        case (PBool b)
        from "9.IH"(4)[OF PBool a1] a2 show ?thesis by blast
      next
        case (PInt i)
        from "9.IH"(6)[OF PInt a1] a2 show ?thesis by blast
      next
        case (PFloat f)
        from "9.IH"(8)[OF PFloat a1] a2 show ?thesis by blast
      next
        case (PStr s)
        from "9.IH"(10)[OF PStr a1] a2 show ?thesis by blast
      next
        case (PDict d)
        from "9.IH"(14)[OF PDict a1] a2 show ?thesis by blast
      qed
      from ih1 ih2 shape_compose show ?thesis by blast
    qed
  qed
next
  case (11 fmt elemento rest acc)
  show ?case
  proof (intro allI impI)
    fix res
    assume r: "buscar_elementos fmt (elemento # rest) acc = Inr res"
    then obtain acc' where a1: "buscar_result_rows fmt elemento acc = Inr acc'"
      and a2: "buscar_elementos fmt rest acc' = Inr res"
      by (auto split: sum.splits)
    from "11.IH"(1) a1 have "\<exists>rows. acc' = acc @ passages_from fmt (length acc) rows" by blast
    moreover from "11.IH"(2)[OF a1] a2
    have "\<exists>rows. res = acc' @ passages_from fmt (length acc') rows" by blast
    ultimately show "\<exists>rows. res = acc @ passages_from fmt (length acc) rows"
      using shape_compose by blast
  qed
qed (auto intro: exI[where x = "[]"] simp: passages_from_def)

lemma passage_of_forma:
  "row_valida row \<Longrightarrow>
   \<exists>p c. passage_of fmt (i, row) = [(''id'', PInt (int i)), (''path'', p), (''conteudo'', PStr c)]"
  by (cases row) simp_all

lemma passages_from_forma:
  assumes "m \<in> set (passages_from fmt n rows)"
  shows "\<exists>i p c. m = [(''id'', i), (''path'', p), (''conteudo'', c)]"
proof -
  from assms obtain x where x: "x \<in> set (enumerate n (filter row_valida rows))"
    and m: "m = passage_of fmt x"
    by (auto simp: passages_from_def)
  from x have "snd x \<in> set (filter row_valida rows)"
    by (metis enumerate_eq_zip prod.collapse set_zip_rightD)
  then have "row_valida (snd x)" by simp
  from passage_of_forma[OF this, of fmt "fst x"] m show ?thesis by auto
qed

lemma textos_de_forma:
  assumes "\<forall>m\<in>set rs. \<exists>i p c. m = [(''id'', i), (''path'', p), (''conteudo'', c)]"
  shows "textos_de rs = Inr (map (\<lambda>m. dict_get m ''conteudo'') rs)"
  using assms by (induction rs) (auto simp: dict_item_def dict_get_def)

lemma metadados_de_forma:
  assumes "\<forall>m\<in>set rs. \<exists>i p c. m = [(''id'', i), (''path'', p), (''conteudo'', c)]"
  shows "metadados_de rs = Inr rs"
  using assms by (induction rs) (auto simp: dict_item_def)

lemma ndarray_uniforme:
  assumes "emb \<noteq> []" and "list_all (\<lambda>v. length v = d) emb" and "0 < d"
  shows "ndarray_size emb \<noteq> 0" and "shape1 emb = d"
  using assms by (cases emb; simp add: ndarray_size_def shape1_def)+

text \<open>
  C3. Let the extraction return a non-empty list of \<open>N\<close> rows, let the embedding model
  answer the batch of their texts with \<open>N\<close> vectors of one dimension \<open>d > 0\<close>, and let
  both file names be writable. Then the run ends normally, and loading the two files it
  wrote gives back an index of exactly \<open>N\<close> vectors, all of dimension \<open>d\<close>, and the
  metadata list of the \<open>N\<close> rows, in which the entry at position \<open>i\<close> has id \<open>i\<close>.
\<close>

theorem corpus_alinhado:
  assumes ext: "extrair_resultados_recursivamente fmt dados = Inr resultados"
      and ne: "resultados \<noteq> []"
      and enc: "encode (map (\<lambda>m. dict_get m ''conteudo'') resultados) = Inr emb"
      and le: "length emb = length resultados"
      and dim: "list_all (\<lambda>v. length v = d) emb"
      and dpos: "0 < d"
      and w1: "gravavel w (''faiss_index_'' @ termo @ ''.faiss'')"
      and w2: "gravavel w (''faiss_index_'' @ termo @ ''_metadados.json'')"
  shows "\<exists>w' index. corpus_de_dados fmt encode termo dados w = (None, w')
          \<and> carregar_indice_e_metadados (arquivos w') termo
              = (Some (index, PList (map PDict resultados)), [CarregadoComSucesso])
          \<and> ntotal index = length resultados
          \<and> dimensao index = d
          \<and> list_all (\<lambda>v. length v = dimensao index) (xb index)
          \<and> map (\<lambda>m. dict_get m ''id'') resultados = map (\<lambda>i. PInt (int i)) [0..<length resultados]"
proof -
  from ext buscar_shape(1)[of fmt dados "[]"] obtain rows where
    rows: "resultados = passages_from fmt 0 rows"
    by (auto simp: extrair_resultados_recursivamente_def)
  have tr: "truthy dados"
  proof (rule ccontr)
    assume "\<not> truthy dados"
    from buscar_falsy[OF this, of fmt "[]"] ext ne show False
      by (simp add: extrair_resultados_recursivamente_def)
  qed
  have forma: "\<forall>m\<in>set resultados. \<exists>i p c. m = [(''id'', i), (''path'', p), (''conteudo'', c)]"
    using passages_from_forma rows by blast
  have ids: "map (\<lambda>m. dict_get m ''id'') resultados = map (\<lambda>i. PInt (int i)) [0..<length resultados]"
    using ids_passages_from[of fmt 0 rows] rows by (simp add: length_passages_from)
  have embne: "emb \<noteq> []" using le ne by auto
  define index where "index = \<lparr>dimensao = d, xb = emb\<rparr>"
  define ni where "ni = ''faiss_index_'' @ termo @ ''.faiss''"
  define nm where "nm = ''faiss_index_'' @ termo @ ''_metadados.json''"
  have dif: "ni \<noteq> nm" by (simp add: ni_def nm_def)
  define msgs where "msgs = saida w @ [ExtracaoConcluida (length resultados),
      EmbeddingsGerados (shape0 emb) (shape1 emb), ConstruindoIndice d (shape0 emb),
      IndiceSalvo ni, MetadadosSalvos nm]"
  define w' where "w' = w\<lparr>arquivos := (arquivos w)(ni \<mapsto> ArquivoFaiss index,
                                                  nm \<mapsto> ArquivoJson (PList (map PDict resultados))),
                          saida := msgs\<rparr>"
  have pp: "processar_para_faiss encode resultados =
      Inr (\<lparr>vetores = emb, metadados = resultados\<rparr>, [EmbeddingsGerados (shape0 emb) (shape1 emb)])"
    using ne enc textos_de_forma[OF forma] metadados_de_forma[OF forma]
    by (simp add: processar_para_faiss_def)
  have cs: "construir_e_salvar_indice_faiss \<lparr>vetores = emb, metadados = resultados\<rparr>
              (''faiss_index_'' @ termo)
              (imprime [EmbeddingsGerados (shape0 emb) (shape1 emb)]
                 (imprime [ExtracaoConcluida (length resultados)] w)) = w'"
    using ndarray_uniforme[OF embne dim dpos] w1 w2
    by (simp add: construir_e_salvar_indice_faiss_def salvar_indice_def salvar_metadados_def
        imprime_def Let_def w'_def index_def ni_def nm_def msgs_def)
  have c1: "corpus_de_dados fmt encode termo dados w = (None, w')"
    using tr ext ne pp cs by (simp add: corpus_de_dados_def Let_def)
  have c2: "carregar_indice_e_metadados (arquivos w') termo
              = (Some (index, PList (map PDict resultados)), [CarregadoComSucesso])"
    using dif by (simp add: carregar_indice_e_metadados_def Let_def w'_def ni_def nm_def)
  have c3: "ntotal index = length resultados" using le by (simp add: ntotal_def index_def)
  have c4: "dimensao index = d" by (simp add: index_def)
  have c5: "list_all (\<lambda>v. length v = dimensao index) (xb index)"
    using dim by (simp add: index_def)
  show ?thesis
    by (rule exI[where x = w'], rule exI[where x = index]) (intro conjI c1 c2 c3 c4 c5 ids)
qed

theorem corpus_alinhado_witness:
  "extrair_resultados_recursivamente (\<lambda>v. []) exemplo_profundidade_3 =
       Inr [[(''id'', PInt 0), (''path'', PStr ''https://a''),
             (''conteudo'', PStr (''PATH: https://a'' @ [CHR 0x0A] @ ''CONTE''
                                  @ [CHR 0xC3, CHR 0x9A] @ ''DO: <p>A</p>''))],
            [(''id'', PInt 1), (''path'', PStr ''https://c''),
             (''conteudo'', PStr (''PATH: https://c'' @ [CHR 0x0A] @ ''CONTE''
                                  @ [CHR 0xC3, CHR 0x9A] @ ''DO: <p>C</p>''))]]
   \<and> (\<exists>w' index. corpus_de_dados (\<lambda>v. []) encode_exemplo ''icms'' exemplo_profundidade_3 mundo_vazio
                    = (None, w')
         \<and> fst (carregar_indice_e_metadados (arquivos w') ''icms'') =
             Some (index,
               PList [PDict [(''id'', PInt 0), (''path'', PStr ''https://a''),
                        (''conteudo'', PStr (''PATH: https://a'' @ [CHR 0x0A] @ ''CONTE''
                                  @ [CHR 0xC3, CHR 0x9A] @ ''DO: <p>A</p>''))],
                      PDict [(''id'', PInt 1), (''path'', PStr ''https://c''),
                        (''conteudo'', PStr (''PATH: https://c'' @ [CHR 0x0A] @ ''CONTE''
                                  @ [CHR 0xC3, CHR 0x9A] @ ''DO: <p>C</p>''))]])
         \<and> ntotal index = 2 \<and> dimensao index = 2)"
proof -
  define rs where "rs =
     [[(''id'', PInt 0), (''path'', PStr ''https://a''),
       (''conteudo'', PStr (''PATH: https://a'' @ [CHR 0x0A] @ ''CONTE''
                            @ [CHR 0xC3, CHR 0x9A] @ ''DO: <p>A</p>''))],
      [(''id'', PInt 1), (''path'', PStr ''https://c''),
       (''conteudo'', PStr (''PATH: https://c'' @ [CHR 0x0A] @ ''CONTE''
                            @ [CHR 0xC3, CHR 0x9A] @ ''DO: <p>C</p>''))]]"
  have h1: "extrair_resultados_recursivamente (\<lambda>v. []) exemplo_profundidade_3 = Inr rs"
    by (simp add: rs_def extrair_resultados_recursivamente_def exemplo_profundidade_3_def
        dict_get_def texto_concatenado_def py_format_def)
  have h2: "rs \<noteq> []" by (simp add: rs_def)
  have h3: "encode_exemplo (map (\<lambda>m. dict_get m ''conteudo'') rs)
              = Inr [[Finite 0, Finite 1], [Finite 0, Finite 1]]"
    by (simp add: rs_def encode_exemplo_def)
  have h4: "length [[Finite 0, Finite 1], [Finite 0, Finite 1]] = length rs" by (simp add: rs_def)
  have h5: "list_all (\<lambda>v. length v = 2) [[Finite 0, Finite 1], [Finite 0, Finite 1]]" by simp
  have h6: "0 < (2::nat)" by simp
  have h7: "gravavel mundo_vazio (''faiss_index_'' @ ''icms'' @ ''.faiss'')"
    by (simp add: mundo_vazio_def)
  have h8: "gravavel mundo_vazio (''faiss_index_'' @ ''icms'' @ ''_metadados.json'')"
    by (simp add: mundo_vazio_def)
  from corpus_alinhado[where encode = encode_exemplo and fmt = "\<lambda>v. []",
      OF h1 h2 h3 h4 h5 h6 h7 h8]
  obtain w' index where
    a: "corpus_de_dados (\<lambda>v. []) encode_exemplo ''icms'' exemplo_profundidade_3 mundo_vazio = (None, w')"
    and b: "carregar_indice_e_metadados (arquivos w') ''icms''
              = (Some (index, PList (map PDict rs)), [CarregadoComSucesso])"
    and c: "ntotal index = length rs" and d: "dimensao index = 2"
    by (elim exE conjE)
  from b have b': "fst (carregar_indice_e_metadados (arquivos w') ''icms'') =
             Some (index, PList (map PDict rs))" by simp
  from c have c': "ntotal index = 2" by (simp add: rs_def)
  show ?thesis
    unfolding rs_def[symmetric]
    using h1 a b' c' d unfolding rs_def by auto
qed

section \<open>The retriever's loop\<close>

lemma mapear_ids_pula:
  "i < length ids \<Longrightarrow> ids ! i = - 1 \<Longrightarrow>
   mapear_ids [ds] [ids] (i # rest) st = mapear_ids [ds] [ids] rest st"
  by (simp add: item_0_def)

lemma mapear_ids_passo:
  assumes "i < length ids" and "i < length ds" and "ids ! i \<noteq> - 1"
      and "0 \<le> ids ! i" and "ids ! i < int (length (docs st))"
      and "docs st ! nat (ids ! i) = PDict d"
  shows "mapear_ids [ds] [ids] (i # rest) st =
           mapear_ids [ds] [ids] rest
             \<lparr>docs = (docs st)[nat (ids ! i) :=
                        PDict (AList.update ''distancia_l2'' (PFloat (ds ! i))
                                 (AList.update ''rank'' (PInt (int i + 1)) d))],
              resultados_relevantes = resultados_relevantes st @ [nat (ids ! i)]\<rparr>"
  using assms by (simp add: item_0_def py_index_pos_def anotar_def)

declare mapear_ids.simps(2) [simp del]

lemma is_dict_ex: "is_dict v \<Longrightarrow> \<exists>d. v = PDict d"
  by (cases v) simp_all

lemma list_all_update:
  assumes "list_all P xs" and "P y"
  shows "list_all P (xs[n := y])"
proof -
  have "set (xs[n := y]) \<subseteq> insert y (set xs)"
    by (rule set_update_subset_insert)
  with assms show ?thesis
    by (auto simp: list_all_iff)
qed

lemma mapear_ids_ok:
  assumes "list_all (slot_ok (length (docs st)) ds ids) sl"
      and "list_all is_dict (docs st)"
  shows "\<exists>st'. mapear_ids [ds] [ids] sl st = Inr st'
           \<and> length (docs st') = length (docs st) \<and> list_all is_dict (docs st')
           \<and> resultados_relevantes st' =
               resultados_relevantes st @ map (\<lambda>i. nat (ids ! i)) (filter (\<lambda>i. ids ! i \<noteq> - 1) sl)"
  using assms
proof (induction sl arbitrary: st)
  case Nil
  then show ?case by simp
next
  case (Cons i sl)
  from Cons.prems(1) have si: "slot_ok (length (docs st)) ds ids i"
    and rest: "list_all (slot_ok (length (docs st)) ds ids) sl" by simp_all
  show ?case
  proof (cases "ids ! i = - 1")
    case True
    with si have "mapear_ids [ds] [ids] (i # sl) st = mapear_ids [ds] [ids] sl st"
      by (simp add: slot_ok_def mapear_ids_pula)
    with Cons.IH[OF rest Cons.prems(2)] True show ?thesis by simp
  next
    case False
    with si have b: "i < length ids" "i < length ds" "0 \<le> ids ! i" "ids ! i < int (length (docs st))"
      by (simp_all add: slot_ok_def)
    then have pl: "nat (ids ! i) < length (docs st)" by simp
    with Cons.prems(2) have "is_dict (docs st ! nat (ids ! i))"
      by (simp add: list_all_length)
    then obtain d where d: "docs st ! nat (ids ! i) = PDict d"
      using is_dict_ex by blast
    define st1 where "st1 =
       \<lparr>docs = (docs st)[nat (ids ! i) :=
                  PDict (AList.update ''distancia_l2'' (PFloat (ds ! i))
                           (AList.update ''rank'' (PInt (int i + 1)) d))],
        resultados_relevantes = resultados_relevantes st @ [nat (ids ! i)]\<rparr>"
    have step: "mapear_ids [ds] [ids] (i # sl) st = mapear_ids [ds] [ids] sl st1"
      unfolding st1_def using mapear_ids_passo[OF b(1,2) False b(3,4) d] .
    have l1: "length (docs st1) = length (docs st)" by (simp add: st1_def)
    have d1: "list_all is_dict (docs st1)"
      using Cons.prems(2) by (simp add: st1_def list_all_update)
    have r1: "list_all (slot_ok (length (docs st1)) ds ids) sl"
      using rest l1 by simp
    from Cons.IH[OF r1 d1] obtain st' where
      "mapear_ids [ds] [ids] sl st1 = Inr st'" "length (docs st') = length (docs st1)"
      "list_all is_dict (docs st')"
      "resultados_relevantes st' =
         resultados_relevantes st1 @ map (\<lambda>i. nat (ids ! i)) (filter (\<lambda>i. ids ! i \<noteq> - 1) sl)"
      by blast
    then show ?thesis
      using step l1 False by (simp add: st1_def)
  qed
qed

lemma campo_anotado_outro:
  "key \<noteq> ''rank'' \<Longrightarrow> key \<noteq> ''distancia_l2'' \<Longrightarrow>
   campo (PDict (AList.update ''distancia_l2'' x (AList.update ''rank'' y d))) key = campo (PDict d) key"
  by (simp add: campo_def update_conv')

lemma campo_anotado_rank:
  "campo (PDict (AList.update ''distancia_l2'' x (AList.update ''rank'' y d))) ''rank'' = Some y"
  by (simp add: campo_def update_conv')

lemma campo_anotado_dist:
  "campo (PDict (AList.update ''distancia_l2'' x (AList.update ''rank'' y d))) ''distancia_l2'' = Some x"
  by (simp add: campo_def update_conv')

lemma mapear_ids_frame:
  assumes "list_all (slot_ok (length (docs st)) ds ids) sl"
      and "list_all is_dict (docs st)"
      and "mapear_ids [ds] [ids] sl st = Inr st'"
      and "p < length (docs st)"
      and "key \<noteq> ''rank''" and "key \<noteq> ''distancia_l2''"
  shows "campo (docs st' ! p) key = campo (docs st ! p) key"
  using assms(1,2,3,4)
proof (induction sl arbitrary: st)
  case Nil
  then show ?case by simp
next
  case (Cons i sl)
  from Cons.prems(1) have si: "slot_ok (length (docs st)) ds ids i"
    and rest: "list_all (slot_ok (length (docs st)) ds ids) sl" by simp_all
  show ?case
  proof (cases "ids ! i = - 1")
    case True
    with si have "mapear_ids [ds] [ids] (i # sl) st = mapear_ids [ds] [ids] sl st"
      by (simp add: slot_ok_def mapear_ids_pula)
    with Cons.IH[OF rest Cons.prems(2) _ Cons.prems(4)] Cons.prems(3) show ?thesis by simp
  next
    case False
    with si have b: "i < length ids" "i < length ds" "0 \<le> ids ! i" "ids ! i < int (length (docs st))"
      by (simp_all add: slot_ok_def)
    then have pl: "nat (ids ! i) < length (docs st)" by simp
    with Cons.prems(2) have "is_dict (docs st ! nat (ids ! i))"
      by (simp add: list_all_length)
    then obtain d where d: "docs st ! nat (ids ! i) = PDict d"
      using is_dict_ex by blast
    define st1 where "st1 =
       \<lparr>docs = (docs st)[nat (ids ! i) :=
                  PDict (AList.update ''distancia_l2'' (PFloat (ds ! i))
                           (AList.update ''rank'' (PInt (int i + 1)) d))],
        resultados_relevantes = resultados_relevantes st @ [nat (ids ! i)]\<rparr>"
    have step: "mapear_ids [ds] [ids] (i # sl) st = mapear_ids [ds] [ids] sl st1"
      unfolding st1_def using mapear_ids_passo[OF b(1,2) False b(3,4) d] .
    have l1: "length (docs st1) = length (docs st)" by (simp add: st1_def)
    have d1: "list_all is_dict (docs st1)"
      using Cons.prems(2) by (simp add: st1_def list_all_update)
    have r1: "list_all (slot_ok (length (docs st1)) ds ids) sl"
      using rest l1 by simp
    have m1: "mapear_ids [ds] [ids] sl st1 = Inr st'"
      using Cons.prems(3) step by simp
    have p1: "p < length (docs st1)" using Cons.prems(4) l1 by simp
    have "campo (docs st' ! p) key = campo (docs st1 ! p) key"
      using Cons.IH[OF r1 d1 m1 p1] .
    also have "campo (docs st1 ! p) key = campo (docs st ! p) key"
    proof (cases "p = nat (ids ! i)")
      case True
      then show ?thesis
        using pl d assms(5,6) by (simp add: st1_def campo_anotado_outro)
    next
      case False
      then show ?thesis by (simp add: st1_def)
    qed
    finally show ?thesis .
  qed
qed

lemma mapear_ids_intocado:
  assumes "list_all (slot_ok (length (docs st)) ds ids) sl"
      and "list_all is_dict (docs st)"
      and "mapear_ids [ds] [ids] sl st = Inr st'"
      and "\<forall>i\<in>set sl. ids ! i \<noteq> int p"
  shows "docs st' ! p = docs st ! p"
  using assms
proof (induction sl arbitrary: st)
  case Nil
  then show ?case by simp
next
  case (Cons i sl)
  from Cons.prems(1) have si: "slot_ok (length (docs st)) ds ids i"
    and rest: "list_all (slot_ok (length (docs st)) ds ids) sl" by simp_all
  from Cons.prems(4) have np: "ids ! i \<noteq> int p" and nps: "\<forall>i\<in>set sl. ids ! i \<noteq> int p"
    by simp_all
  show ?case
  proof (cases "ids ! i = - 1")
    case True
    with si have "mapear_ids [ds] [ids] (i # sl) st = mapear_ids [ds] [ids] sl st"
      by (simp add: slot_ok_def mapear_ids_pula)
    with Cons.IH[OF rest Cons.prems(2) _ nps] Cons.prems(3) show ?thesis by simp
  next
    case False
    with si have b: "i < length ids" "i < length ds" "0 \<le> ids ! i" "ids ! i < int (length (docs st))"
      by (simp_all add: slot_ok_def)
    then have pl: "nat (ids ! i) < length (docs st)" by simp
    with Cons.prems(2) have "is_dict (docs st ! nat (ids ! i))"
      by (simp add: list_all_length)
    then obtain d where d: "docs st ! nat (ids ! i) = PDict d"
      using is_dict_ex by blast
    define st1 where "st1 =
       \<lparr>docs = (docs st)[nat (ids ! i) :=
                  PDict (AList.update ''distancia_l2'' (PFloat (ds ! i))
                           (AList.update ''rank'' (PInt (int i + 1)) d))],
        resultados_relevantes = resultados_relevantes st @ [nat (ids ! i)]\<rparr>"
    have step: "mapear_ids [ds] [ids] (i # sl) st = mapear_ids [ds] [ids] sl st1"
      unfolding st1_def using mapear_ids_passo[OF b(1,2) False b(3,4) d] .
    have l1: "length (docs st1) = length (docs st)" by (simp add: st1_def)
    have d1: "list_all is_dict (docs st1)"
      using Cons.prems(2) by (simp add: st1_def list_all_update)
    have r1: "list_all (slot_ok (length (docs st1)) ds ids) sl"
      using rest l1 by simp
    have m1: "mapear_ids [ds] [ids] sl st1 = Inr st'"
      using Cons.prems(3) step by simp
    have "docs st' ! p = docs st1 ! p"
      using Cons.IH[OF r1 d1 m1 nps] .
    moreover have "p \<noteq> nat (ids ! i)" using np b(3) by auto
    ultimately show ?thesis by (simp add: st1_def)
  qed
qed

lemma mapear_ids_anotado:
  assumes "list_all (slot_ok (length (docs st)) ds ids) sl"
      and "list_all is_dict (docs st)"
      and "mapear_ids [ds] [ids] sl st = Inr st'"
      and "\<exists>i\<in>set sl. ids ! i = int p"
  shows "\<exists>i\<in>set sl. ids ! i = int p
           \<and> campo (docs st' ! p) ''rank'' = Some (PInt (int i + 1))
           \<and> campo (docs st' ! p) ''distancia_l2'' = Some (PFloat (ds ! i))"
  using assms
proof (induction sl arbitrary: st)
  case Nil
  then show ?case by simp
next
  case (Cons i sl)
  from Cons.prems(1) have si: "slot_ok (length (docs st)) ds ids i"
    and rest: "list_all (slot_ok (length (docs st)) ds ids) sl" by simp_all
  show ?case
  proof (cases "ids ! i = - 1")
    case True
    with si have "mapear_ids [ds] [ids] (i # sl) st = mapear_ids [ds] [ids] sl st"
      by (simp add: slot_ok_def mapear_ids_pula)
    then have m: "mapear_ids [ds] [ids] sl st = Inr st'" using Cons.prems(3) by simp
    from True Cons.prems(4) have "\<exists>j\<in>set sl. ids ! j = int p" by auto
    from Cons.IH[OF rest Cons.prems(2) m this] show ?thesis by auto
  next
    case False
    with si have b: "i < length ids" "i < length ds" "0 \<le> ids ! i" "ids ! i < int (length (docs st))"
      by (simp_all add: slot_ok_def)
    then have pl: "nat (ids ! i) < length (docs st)" by simp
    with Cons.prems(2) have "is_dict (docs st ! nat (ids ! i))"
      by (simp add: list_all_length)
    then obtain d where d: "docs st ! nat (ids ! i) = PDict d"
      using is_dict_ex by blast
    define st1 where "st1 =
       \<lparr>docs = (docs st)[nat (ids ! i) :=
                  PDict (AList.update ''distancia_l2'' (PFloat (ds ! i))
                           (AList.update ''rank'' (PInt (int i + 1)) d))],
        resultados_relevantes = resultados_relevantes st @ [nat (ids ! i)]\<rparr>"
    have step: "mapear_ids [ds] [ids] (i # sl) st = mapear_ids [ds] [ids] sl st1"
      unfolding st1_def using mapear_ids_passo[OF b(1,2) False b(3,4) d] .
    have l1: "length (docs st1) = length (docs st)" by (simp add: st1_def)
    have d1: "list_all is_dict (docs st1)"
      using Cons.prems(2) by (simp add: st1_def list_all_update)
    have r1: "list_all (slot_ok (length (docs st1)) ds ids) sl"
      using rest l1 by simp
    have m1: "mapear_ids [ds] [ids] sl st1 = Inr st'"
      using Cons.prems(3) step by simp
    show ?thesis
    proof (cases "\<exists>j\<in>set sl. ids ! j = int p")
      case True
      from Cons.IH[OF r1 d1 m1 True] show ?thesis by auto
    next
      case nohit: False
      with Cons.prems(4) have ip: "ids ! i = int p" by auto
      then have pp: "nat (ids ! i) = p" by simp
      from nohit have "\<forall>j\<in>set sl. ids ! j \<noteq> int p" by simp
      from mapear_ids_intocado[OF r1 d1 m1 this]
      have "docs st' ! p = docs st1 ! p" .
      also have "\<dots> = PDict (AList.update ''distancia_l2'' (PFloat (ds ! i))
                           (AList.update ''rank'' (PInt (int i + 1)) d))"
        using pl pp by (simp add: st1_def)
      finally have "campo (docs st' ! p) ''rank'' = Some (PInt (int i + 1))"
        "campo (docs st' ! p) ''distancia_l2'' = Some (PFloat (ds ! i))"
        by (simp_all only: campo_anotado_rank campo_anotado_dist)
      with ip show ?thesis by simp
    qed
  qed
qed

lemma passagem_ok_campo: "passagem_ok v \<longleftrightarrow> campo v ''conteudo'' \<noteq> None"
  by (cases v) (simp_all add: passagem_ok_def campo_def)

lemma passagem_ok_is_dict: "passagem_ok v \<Longrightarrow> is_dict v"
  by (cases v) (simp_all add: passagem_ok_def)

lemma secao_ok:
  assumes "campo v ''rank'' = Some rk" and "campo v ''distancia_l2'' = Some (PFloat x)"
      and "campo v ''conteudo'' = Some c"
  shows "\<exists>s. secao fmt fmt4 v = Inr s"
  using assms by (cases v) (simp_all add: campo_def secao_def dict_item_def)

lemma formatar_ok:
  assumes "list_all (\<lambda>r. \<exists>rk x c. campo (objs ! r) ''rank'' = Some rk
                          \<and> campo (objs ! r) ''distancia_l2'' = Some (PFloat x)
                          \<and> campo (objs ! r) ''conteudo'' = Some c) rs"
  shows "\<exists>s. formatar fmt fmt4 objs rs = Inr s"
  using assms
proof (induction rs)
  case Nil
  then show ?case by simp
next
  case (Cons r rs)
  then obtain rk x c where "campo (objs ! r) ''rank'' = Some rk"
    "campo (objs ! r) ''distancia_l2'' = Some (PFloat x)" "campo (objs ! r) ''conteudo'' = Some c"
    by auto
  from secao_ok[OF this] obtain s where "secao fmt fmt4 (objs ! r) = Inr s" by blast
  moreover from Cons obtain ss where "formatar fmt fmt4 objs rs = Inr ss" by auto
  ultimately show ?case by simp
qed

lemma filter_nth_upt:
  assumes "length ids = k"
  shows "map (\<lambda>i. f (ids ! i)) (filter (\<lambda>i. P (ids ! i)) [0..<k]) = map f (filter P ids)"
proof -
  have "map (\<lambda>i. ids ! i) [0..<k] = ids"
    using assms map_nth[of ids] by simp
  then have "map f (filter P ids) = map f (filter P (map (\<lambda>i. ids ! i) [0..<k]))"
    by simp
  also have "\<dots> = map (\<lambda>i. f (ids ! i)) (filter (\<lambda>i. P (ids ! i)) [0..<k])"
    by (simp only: filter_map map_map comp_def)
  finally show ?thesis by simp
qed

lemma buscar_faiss_geral:
  assumes enc: "encode [PStr query] = Inr q"
      and srch: "search index q k = Inr ([ds], [ids])"
      and lds: "length ds = k" and lids: "length ids = k"
      and val: "list_all (\<lambda>i. i = - 1 \<or> (0 \<le> i \<and> i < int (length metadados_docs))) ids"
      and pok: "list_all passagem_ok metadados_docs"
  shows "\<exists>saida st. buscar_faiss encode search fmt fmt4 query index metadados_docs k = Inr (saida, st)
       \<and> length (docs st) = length metadados_docs
       \<and> resultados_relevantes st = map nat (filter (\<lambda>i. i \<noteq> - 1) ids)
       \<and> (\<forall>p<length metadados_docs. \<forall>key. key \<noteq> ''rank'' \<and> key \<noteq> ''distancia_l2'' \<longrightarrow>
             campo (docs st ! p) key = campo (metadados_docs ! p) key)
       \<and> (\<forall>p<length metadados_docs. int p \<notin> set ids \<longrightarrow> docs st ! p = metadados_docs ! p)
       \<and> (\<forall>p<length metadados_docs. int p \<in> set ids \<longrightarrow>
             (\<exists>i<k. ids ! i = int p
                  \<and> campo (docs st ! p) ''rank'' = Some (PInt (int i + 1))
                  \<and> campo (docs st ! p) ''distancia_l2'' = Some (PFloat (ds ! i))))"
proof -
  define st0 where "st0 = \<lparr>docs = metadados_docs, resultados_relevantes = []\<rparr>"
  have d0: "docs st0 = metadados_docs" and r0: "resultados_relevantes st0 = []"
    by (simp_all add: st0_def)
  have slots: "list_all (slot_ok (length (docs st0)) ds ids) [0..<k]"
    using val lds lids by (auto simp: list_all_iff slot_ok_def d0)
  have dicts: "list_all is_dict (docs st0)"
    using pok by (auto simp: list_all_iff d0 passagem_ok_is_dict)
  from mapear_ids_ok[OF slots dicts] obtain st where
    m: "mapear_ids [ds] [ids] [0..<k] st0 = Inr st"
    and len: "length (docs st) = length metadados_docs"
    and res0: "resultados_relevantes st =
                 map (\<lambda>i. nat (ids ! i)) (filter (\<lambda>i. ids ! i \<noteq> - 1) [0..<k])"
    by (auto simp: d0 r0)
  have res: "resultados_relevantes st = map nat (filter (\<lambda>i. i \<noteq> - 1) ids)"
    using res0 filter_nth_upt[OF lids, of nat "\<lambda>i. i \<noteq> - 1"] by simp
  have frame: "campo (docs st ! p) key = campo (metadados_docs ! p) key"
    if "p < length metadados_docs" "key \<noteq> ''rank''" "key \<noteq> ''distancia_l2''" for p key
    using mapear_ids_frame[OF slots dicts m _ that(2,3), of p] that(1) by (simp add: d0)
  have intocado: "docs st ! p = metadados_docs ! p"
    if "int p \<notin> set ids" for p
  proof -
    have "\<forall>i\<in>set [0..<k]. ids ! i \<noteq> int p"
      using that lids by (auto simp: in_set_conv_nth)
    from mapear_ids_intocado[OF slots dicts m this] show ?thesis by (simp add: d0)
  qed
  have anotado: "\<exists>i<k. ids ! i = int p
                  \<and> campo (docs st ! p) ''rank'' = Some (PInt (int i + 1))
                  \<and> campo (docs st ! p) ''distancia_l2'' = Some (PFloat (ds ! i))"
    if "int p \<in> set ids" for p
  proof -
    have "\<exists>i\<in>set [0..<k]. ids ! i = int p"
      using that lids by (auto simp: in_set_conv_nth)
    from mapear_ids_anotado[OF slots dicts m this] show ?thesis by auto
  qed
  have "list_all (\<lambda>r. \<exists>rk x c. campo (docs st ! r) ''rank'' = Some rk
                          \<and> campo (docs st ! r) ''distancia_l2'' = Some (PFloat x)
                          \<and> campo (docs st ! r) ''conteudo'' = Some c) (resultados_relevantes st)"
    unfolding list_all_iff
  proof
    fix r assume "r \<in> set (resultados_relevantes st)"
    then obtain i where i: "i \<in> set ids" "i \<noteq> - 1" "r = nat i"
      by (auto simp: res)
    with val have rng: "0 \<le> i" "i < int (length metadados_docs)"
      by (auto simp: list_all_iff)
    then have rl: "r < length metadados_docs" and ir: "int r = i" using i(3) by simp_all
    from anotado[of r] i(1) ir obtain j where
      "campo (docs st ! r) ''rank'' = Some (PInt (int j + 1))"
      "campo (docs st ! r) ''distancia_l2'' = Some (PFloat (ds ! j))" by auto
    moreover have "campo (docs st ! r) ''conteudo'' = campo (metadados_docs ! r) ''conteudo''"
      using frame[OF rl] by simp
    moreover have "campo (metadados_docs ! r) ''conteudo'' \<noteq> None"
      using pok rl by (simp add: list_all_length passagem_ok_campo)
    ultimately show "\<exists>rk x c. campo (docs st ! r) ''rank'' = Some rk
                          \<and> campo (docs st ! r) ''distancia_l2'' = Some (PFloat x)
                          \<and> campo (docs st ! r) ''conteudo'' = Some c"
      by auto
  qed
  from formatar_ok[OF this] obtain saida where
    f: "formatar fmt fmt4 (docs st) (resultados_relevantes st) = Inr saida" by blast
  have c1: "buscar_faiss encode search fmt fmt4 query index metadados_docs k = Inr (saida, st)"
    using enc srch m f by (simp add: buscar_faiss_def st0_def)
  have c4: "\<forall>p<length metadados_docs. \<forall>key. key \<noteq> ''rank'' \<and> key \<noteq> ''distancia_l2'' \<longrightarrow>
             campo (docs st ! p) key = campo (metadados_docs ! p) key"
    using frame by simp
  have c5: "\<forall>p<length metadados_docs. int p \<notin> set ids \<longrightarrow> docs st ! p = metadados_docs ! p"
    using intocado by simp
  have c6: "\<forall>p<length metadados_docs. int p \<in> set ids \<longrightarrow>
             (\<exists>i<k. ids ! i = int p
                  \<and> campo (docs st ! p) ''rank'' = Some (PInt (int i + 1))
                  \<and> campo (docs st ! p) ''distancia_l2'' = Some (PFloat (ds ! i)))"
    using anotado by simp
  show ?thesis
    by (rule exI[where x = saida], rule exI[where x = st]) (intro conjI c1 len res c4 c5 c6)
qed

lemma resposta_flatD:
  assumes "resposta_flat n k (D, I)"
  shows "\<exists>ds ids. D = [ds] \<and> I = [ids] \<and> length ds = k \<and> length ids = k
           \<and> list_all (\<lambda>i. 0 \<le> i \<and> i < int n) (take (min k n) ids)
           \<and> distinct (take (min k n) ids)
           \<and> drop (min k n) ids = replicate (k - min k n) (- 1)
           \<and> sorted_wrt float_le (take (min k n) ds)"
  using assms by (auto simp: resposta_flat_def split: list.splits)

text \<open>
  C10. When the search answers with one row of \<open>k\<close> distances and one of \<open>k\<close> ids, each
  id being \<open>-1\<close> or a position of the metadata list, and every metadata entry is a
  dictionary with a \<^verbatim>\<open>conteudo\<close>, the query returns and leaves the metadata list itself
  changed: the result list holds the positions of the entries hit (references to the
  same objects, in slot order, the \<open>-1\<close> slots left out); every entry hit carries, under
  \<^verbatim>\<open>rank\<close> and \<^verbatim>\<open>distancia_l2\<close>, the rank and distance of a slot that named it; its other
  keys are as before; and an entry that no slot names is untouched.
\<close>

theorem busca_anota_metadados:
  assumes "encode [PStr query] = Inr q"
      and "search index q k = Inr ([ds], [ids])"
      and "length ds = k" and "length ids = k"
      and "list_all (\<lambda>i. i = - 1 \<or> (0 \<le> i \<and> i < int (length metadados_docs))) ids"
      and "list_all passagem_ok metadados_docs"
  shows "\<exists>saida st. buscar_faiss encode search fmt fmt4 query index metadados_docs k = Inr (saida, st)
       \<and> length (docs st) = length metadados_docs
       \<and> resultados_relevantes st = map nat (filter (\<lambda>i. i \<noteq> - 1) ids)
       \<and> (\<forall>p<length metadados_docs. \<forall>key. key \<noteq> ''rank'' \<and> key \<noteq> ''distancia_l2'' \<longrightarrow>
             campo (docs st ! p) key = campo (metadados_docs ! p) key)
       \<and> (\<forall>p<length metadados_docs. int p \<notin> set ids \<longrightarrow> docs st ! p = metadados_docs ! p)
       \<and> (\<forall>p<length metadados_docs. int p \<in> set ids \<longrightarrow>
             (\<exists>i<k. ids ! i = int p
                  \<and> campo (docs st ! p) ''rank'' = Some (PInt (int i + 1))
                  \<and> campo (docs st ! p) ''distancia_l2'' = Some (PFloat (ds ! i))))"
  using buscar_faiss_geral[where encode = encode and search = search, OF assms] .

theorem busca_anota_metadados_witness:
  "encode_exemplo [PStr ''icms''] = Inr [[Finite 0, Finite 1]]
   \<and> search_exemplo indice_exemplo [[Finite 0, Finite 1]] 3
       = Inr ([[Finite 0, Finite 2, PosInf]], [[1, 0, - 1]])
   \<and> list_all passagem_ok metadados_exemplo
   \<and> (\<exists>saida st. buscar_faiss encode_exemplo search_exemplo (\<lambda>v. []) (\<lambda>x. []) ''icms''
                    indice_exemplo metadados_exemplo 3 = Inr (saida, st)
         \<and> length (docs st) = 2
         \<and> resultados_relevantes st = [1, 0]
         \<and> campo (docs st ! 0) ''conteudo'' = Some (PStr ''texto A''))"
proof -
  have h1: "encode_exemplo [PStr ''icms''] = Inr [[Finite 0, Finite 1]]"
    by (simp add: encode_exemplo_def)
  have h2: "search_exemplo indice_exemplo [[Finite 0, Finite 1]] 3
       = Inr ([[Finite 0, Finite 2, PosInf]], [[1, 0, - 1]])"
    by (simp add: search_exemplo_def)
  have h3: "length [Finite 0, Finite 2, PosInf] = 3" by simp
  have h4: "length [1, 0, - 1 :: int] = 3" by simp
  have h5: "list_all (\<lambda>i. i = - 1 \<or> (0 \<le> i \<and> i < int (length metadados_exemplo))) [1, 0, - 1]"
    by (simp add: metadados_exemplo_def)
  have h6: "list_all passagem_ok metadados_exemplo"
    by (simp add: metadados_exemplo_def passagem_ok_def)
  from busca_anota_metadados[where encode = encode_exemplo and search = search_exemplo
      and fmt = "\<lambda>v. []" and ?fmt4.0 = "\<lambda>x. []", OF h1 h2 h3 h4 h5 h6]
  obtain saida st where
    a: "buscar_faiss encode_exemplo search_exemplo (\<lambda>v. []) (\<lambda>x. []) ''icms''
          indice_exemplo metadados_exemplo 3 = Inr (saida, st)"
    and b: "length (docs st) = length metadados_exemplo"
    and c: "resultados_relevantes st = map nat (filter (\<lambda>i. i \<noteq> - 1) [1, 0, - 1])"
    and d: "\<forall>p<length metadados_exemplo. \<forall>key. key \<noteq> ''rank'' \<and> key \<noteq> ''distancia_l2'' \<longrightarrow>
             campo (docs st ! p) key = campo (metadados_exemplo ! p) key"
    by (elim exE conjE)
  from d have "campo (docs st ! 0) ''conteudo'' = campo (metadados_exemplo ! 0) ''conteudo''"
    by (simp add: metadados_exemplo_def)
  then have e: "campo (docs st ! 0) ''conteudo'' = Some (PStr ''texto A'')"
    by (simp add: metadados_exemplo_def campo_def)
  from b have b': "length (docs st) = 2" by (simp add: metadados_exemplo_def)
  from c have c': "resultados_relevantes st = [1, 0]" by simp
  show ?thesis
    by (intro conjI h1 h2 h6 exI[where x = saida] exI[where x = st] a b' c' e)
qed




lemma sorted_wrt_hd_tl: "sorted_wrt P xs \<Longrightarrow> list_all (P (hd xs)) (tl xs)"
  by (cases xs) (simp_all add: list_all_iff)

lemma buscar_faiss_saida:
  assumes "buscar_faiss encode search fmt fmt4 query index metadados_docs k = Inr (bloco, st)"
  shows "formatar fmt fmt4 (docs st) (resultados_relevantes st) = Inr bloco"
  using assms by (auto simp: buscar_faiss_def split: sum.splits prod.splits)

lemma secao_valor:
  assumes "campo v ''rank'' = Some (PInt (int rk))"
      and "campo v ''distancia_l2'' = Some (PFloat x)"
      and "campo v ''path'' = campo e ''path''"
      and "campo v ''conteudo'' = campo e ''conteudo''"
      and "campo e ''conteudo'' \<noteq> None"
  shows "secao fmt fmt4 v = Inr (secao_do_resultado fmt fmt4 rk x e)"
proof (cases v)
  case (PDict d)
  from assms(5) obtain c where c: "campo e ''conteudo'' = Some c" by auto
  with assms PDict have
    "map_of d ''rank'' = Some (PInt (int rk))" "map_of d ''distancia_l2'' = Some (PFloat x)"
    "map_of d ''path'' = campo e ''path''" "map_of d ''conteudo'' = Some c"
    by (simp_all add: campo_def)
  with PDict c show ?thesis
    by (simp add: secao_def dict_item_def secao_do_resultado_def)
qed (use assms(1) in \<open>simp_all add: campo_def\<close>)

lemma formatar_secoes:
  assumes "\<forall>j\<in>set js. secao fmt fmt4 (objs ! g j) = Inr (h j)"
  shows "formatar fmt fmt4 objs (map g js) = Inr (concat (map h js))"
  using assms by (induction js) simp_all

lemma sorted_wrt_dist_le:
  "sorted_wrt float_le ds \<Longrightarrow> sorted_wrt dist_le (map Some ds)"
  by (simp add: sorted_wrt_map dist_le_def)

text \<open>
  C6. Let \<open>k\<close> be at most the size of the index, let the search answer as a flat index
  does (\<open>k\<close> distinct positions by ascending distance), and let the metadata list be
  aligned with the index. Then the query returns a block of exactly \<open>k\<close> sections, in
  the order of the slots of the search: section \<open>j\<close> carries the rank \<open>j + 1\<close>, the
  distance of slot \<open>j\<close>, and the path and the content of the metadata entry at the
  position the search gave in slot \<open>j\<close>. Behind the block, the results are these \<open>k\<close>
  entries with their id, path and content, annotated with the same ranks and distances;
  the annotated distances are non-decreasing in rank, and none is below that of rank 1.
\<close>

theorem busca_com_k_ate_o_indice:
  assumes enc: "encode [PStr query] = Inr q"
      and srch: "search index q k = Inr (D, I)"
      and flat: "resposta_flat (ntotal index) k (D, I)"
      and kn: "k \<le> ntotal index"
      and align: "length metadados_docs = ntotal index"
      and pok: "list_all passagem_ok metadados_docs"
  shows "\<exists>saida st. buscar_faiss encode search fmt fmt4 query index metadados_docs k = Inr (saida, st)
       \<and> saida = concat (map (\<lambda>j. secao_do_resultado fmt fmt4 (j + 1) (hd D ! j)
                                    (metadados_docs ! nat (hd I ! j))) [0..<k])
       \<and> length (resultados_relevantes st) = k
       \<and> resultados_relevantes st = map nat (hd I)
       \<and> map (\<lambda>r. campo (docs st ! r) ''rank'') (resultados_relevantes st)
           = map (\<lambda>j. Some (PInt (int j + 1))) [0..<k]
       \<and> map (\<lambda>r. campo (docs st ! r) ''distancia_l2'') (resultados_relevantes st)
           = map (\<lambda>x. Some (PFloat x)) (hd D)
       \<and> sorted_wrt dist_le (map (\<lambda>r. distancia_anotada (docs st ! r)) (resultados_relevantes st))
       \<and> list_all (dist_le (hd (map (\<lambda>r. distancia_anotada (docs st ! r)) (resultados_relevantes st))))
            (tl (map (\<lambda>r. distancia_anotada (docs st ! r)) (resultados_relevantes st)))
       \<and> map (\<lambda>r. campo (docs st ! r) ''id'') (resultados_relevantes st)
           = map (\<lambda>r. campo (metadados_docs ! r) ''id'') (resultados_relevantes st)
       \<and> map (\<lambda>r. campo (docs st ! r) ''path'') (resultados_relevantes st)
           = map (\<lambda>r. campo (metadados_docs ! r) ''path'') (resultados_relevantes st)
       \<and> map (\<lambda>r. campo (docs st ! r) ''conteudo'') (resultados_relevantes st)
           = map (\<lambda>r. campo (metadados_docs ! r) ''conteudo'') (resultados_relevantes st)"
proof -
  define n where "n = ntotal index"
  from resposta_flatD[OF flat] kn obtain ds ids where
    D: "D = [ds]" and I: "I = [ids]" and lds: "length ds = k" and lids: "length ids = k"
    and rng: "list_all (\<lambda>i. 0 \<le> i \<and> i < int n) ids"
    and dist: "distinct ids"
    and srt: "sorted_wrt float_le ds"
    by (auto simp: n_def min_def)
  have ln: "length metadados_docs = n" using align by (simp add: n_def)
  have val: "list_all (\<lambda>i. i = - 1 \<or> (0 \<le> i \<and> i < int (length metadados_docs))) ids"
    using rng ln by (auto simp: list_all_iff)
  have fil: "filter (\<lambda>i. i \<noteq> - 1) ids = ids"
    using rng by (auto simp: list_all_iff filter_id_conv)
  from buscar_faiss_geral[where encode = encode and search = search and fmt = fmt
      and ?fmt4.0 = fmt4, OF enc srch[unfolded D I] lds lids val pok]
  obtain saida st where
    a: "buscar_faiss encode search fmt fmt4 query index metadados_docs k = Inr (saida, st)"
    and c: "resultados_relevantes st = map nat (filter (\<lambda>i. i \<noteq> - 1) ids)"
    and d: "\<forall>p<length metadados_docs. \<forall>key. key \<noteq> ''rank'' \<and> key \<noteq> ''distancia_l2'' \<longrightarrow>
             campo (docs st ! p) key = campo (metadados_docs ! p) key"
    and e: "\<forall>p<length metadados_docs. int p \<in> set ids \<longrightarrow>
             (\<exists>i<k. ids ! i = int p
                  \<and> campo (docs st ! p) ''rank'' = Some (PInt (int i + 1))
                  \<and> campo (docs st ! p) ''distancia_l2'' = Some (PFloat (ds ! i)))"
    by (elim exE conjE)
  have res: "resultados_relevantes st = map nat ids" using c fil by simp
  have c1: "length (resultados_relevantes st) = k" using res lids by simp
  have c2: "resultados_relevantes st = map nat (hd I)" using res I by simp
  have pl: "nat (ids ! j) < length metadados_docs" if "j < k" for j
  proof -
    from that lids have "ids ! j \<in> set ids" by simp
    with rng ln show ?thesis by (auto simp: list_all_iff)
  qed
  have slot: "campo (docs st ! nat (ids ! j)) ''rank'' = Some (PInt (int j + 1))
              \<and> campo (docs st ! nat (ids ! j)) ''distancia_l2'' = Some (PFloat (ds ! j))"
    if "j < k" for j
  proof -
    from that lids have mem: "ids ! j \<in> set ids" by simp
    with rng have r: "0 \<le> ids ! j" "ids ! j < int n" by (auto simp: list_all_iff)
    then have ip: "int (nat (ids ! j)) = ids ! j" by simp
    from e pl[OF that] mem ip obtain i where i: "i < k" "ids ! i = ids ! j"
      "campo (docs st ! nat (ids ! j)) ''rank'' = Some (PInt (int i + 1))"
      "campo (docs st ! nat (ids ! j)) ''distancia_l2'' = Some (PFloat (ds ! i))"
      by auto
    from i(1,2) that dist lids have "i = j"
      by (simp add: nth_eq_iff_index_eq)
    with i(3,4) show ?thesis by simp
  qed
  have sec: "secao fmt fmt4 (docs st ! nat (ids ! j))
               = Inr (secao_do_resultado fmt fmt4 (j + 1) (ds ! j) (metadados_docs ! nat (ids ! j)))"
    if "j < k" for j
  proof (rule secao_valor)
    show "campo (docs st ! nat (ids ! j)) ''rank'' = Some (PInt (int (j + 1)))"
      using slot[OF that] by simp
    show "campo (docs st ! nat (ids ! j)) ''distancia_l2'' = Some (PFloat (ds ! j))"
      using slot[OF that] by simp
    show "campo (docs st ! nat (ids ! j)) ''path'' = campo (metadados_docs ! nat (ids ! j)) ''path''"
      using d pl[OF that] by simp
    show "campo (docs st ! nat (ids ! j)) ''conteudo''
            = campo (metadados_docs ! nat (ids ! j)) ''conteudo''"
      using d pl[OF that] by simp
    show "campo (metadados_docs ! nat (ids ! j)) ''conteudo'' \<noteq> None"
      using pok pl[OF that] by (simp add: list_all_length passagem_ok_campo)
  qed
  have resj: "resultados_relevantes st = map (\<lambda>j. nat (ids ! j)) [0..<k]"
  proof -
    have "map (\<lambda>j. ids ! j) [0..<k] = ids" using lids map_nth[of ids] by simp
    then have "map nat ids = map nat (map (\<lambda>j. ids ! j) [0..<k])" by simp
    also have "\<dots> = map (\<lambda>j. nat (ids ! j)) [0..<k]" by (simp only: map_map comp_def)
    finally show ?thesis using res by simp
  qed
  have "formatar fmt fmt4 (docs st) (map (\<lambda>j. nat (ids ! j)) [0..<k])
          = Inr (concat (map (\<lambda>j. secao_do_resultado fmt fmt4 (j + 1) (ds ! j)
                                     (metadados_docs ! nat (ids ! j))) [0..<k]))"
    by (rule formatar_secoes) (use sec in simp)
  with buscar_faiss_saida[OF a] resj
  have "saida = concat (map (\<lambda>j. secao_do_resultado fmt fmt4 (j + 1) (ds ! j)
                                     (metadados_docs ! nat (ids ! j))) [0..<k])"
    by simp
  then have c0: "saida = concat (map (\<lambda>j. secao_do_resultado fmt fmt4 (j + 1) (hd D ! j)
                                    (metadados_docs ! nat (hd I ! j))) [0..<k])"
    using D I by simp
  have c3: "map (\<lambda>r. campo (docs st ! r) ''rank'') (resultados_relevantes st)
           = map (\<lambda>j. Some (PInt (int j + 1))) [0..<k]"
    using slot lids by (auto simp: res intro!: nth_equalityI)
  have c4': "map (\<lambda>r. campo (docs st ! r) ''distancia_l2'') (resultados_relevantes st)
           = map (\<lambda>x. Some (PFloat x)) ds"
    using slot lids lds by (auto simp: res intro!: nth_equalityI)
  then have c4: "map (\<lambda>r. campo (docs st ! r) ''distancia_l2'') (resultados_relevantes st)
           = map (\<lambda>x. Some (PFloat x)) (hd D)" using D by simp
  have da: "map (\<lambda>r. distancia_anotada (docs st ! r)) (resultados_relevantes st) = map Some ds"
    using slot lids lds by (auto simp: res distancia_anotada_def intro!: nth_equalityI)
  have c5: "sorted_wrt dist_le (map (\<lambda>r. distancia_anotada (docs st ! r)) (resultados_relevantes st))"
    unfolding da using srt by (rule sorted_wrt_dist_le)
  have c6: "list_all (dist_le (hd (map (\<lambda>r. distancia_anotada (docs st ! r)) (resultados_relevantes st))))
            (tl (map (\<lambda>r. distancia_anotada (docs st ! r)) (resultados_relevantes st)))"
    using sorted_wrt_hd_tl[OF c5] .
  have fr: "map (\<lambda>r. campo (docs st ! r) key) (resultados_relevantes st)
           = map (\<lambda>r. campo (metadados_docs ! r) key) (resultados_relevantes st)"
    if "key \<noteq> ''rank''" "key \<noteq> ''distancia_l2''" for key
  proof (rule map_cong[OF refl])
    fix r assume "r \<in> set (resultados_relevantes st)"
    then obtain i where "i \<in> set ids" "r = nat i" using res by auto
    with rng ln have "r < length metadados_docs" by (auto simp: list_all_iff)
    with d that show "campo (docs st ! r) key = campo (metadados_docs ! r) key" by simp
  qed
  have c7: "map (\<lambda>r. campo (docs st ! r) ''id'') (resultados_relevantes st)
           = map (\<lambda>r. campo (metadados_docs ! r) ''id'') (resultados_relevantes st)"
    by (rule fr) simp_all
  have c8: "map (\<lambda>r. campo (docs st ! r) ''path'') (resultados_relevantes st)
           = map (\<lambda>r. campo (metadados_docs ! r) ''path'') (resultados_relevantes st)"
    by (rule fr) simp_all
  have c9: "map (\<lambda>r. campo (docs st ! r) ''conteudo'') (resultados_relevantes st)
           = map (\<lambda>r. campo (metadados_docs ! r) ''conteudo'') (resultados_relevantes st)"
    by (rule fr) simp_all
  show ?thesis
    by (rule exI[where x = saida], rule exI[where x = st])
       (intro conjI a c0 c1 c2 c3 c4 c5 c6 c7 c8 c9)
qed

theorem busca_com_k_ate_o_indice_witness:
  "encode_exemplo [PStr ''icms''] = Inr [[Finite 0, Finite 1]]
   \<and> search_exemplo indice_exemplo [[Finite 0, Finite 1]] 2 = Inr ([[Finite 0, Finite 2]], [[1, 0]])
   \<and> resposta_flat (ntotal indice_exemplo) 2 ([[Finite 0, Finite 2]], [[1, 0]])
   \<and> 2 \<le> ntotal indice_exemplo
   \<and> length metadados_exemplo = ntotal indice_exemplo
   \<and> list_all passagem_ok metadados_exemplo
   \<and> (\<exists>saida st. buscar_faiss encode_exemplo search_exemplo fmt_exemplo fmt4_exemplo ''icms''
                    indice_exemplo metadados_exemplo 2 = Inr (saida, st)
         \<and> saida =
             ''--- DOCUMENTO RANK 1 ---'' @ [CHR 0x0A] @ ''URL/Fonte: https://c'' @ [CHR 0x0A]
             @ ''Dist'' @ [CHR 0xC3, CHR 0xA2] @ ''ncia (Similaridade): 0.0000'' @ [CHR 0x0A]
             @ ''Conte'' @ [CHR 0xC3, CHR 0xBA] @ ''do:'' @ [CHR 0x0A] @ ''texto C''
             @ [CHR 0x0A, CHR 0x0A]
             @ ''--- DOCUMENTO RANK 2 ---'' @ [CHR 0x0A] @ ''URL/Fonte: https://a'' @ [CHR 0x0A]
             @ ''Dist'' @ [CHR 0xC3, CHR 0xA2] @ ''ncia (Similaridade): 2.0000'' @ [CHR 0x0A]
             @ ''Conte'' @ [CHR 0xC3, CHR 0xBA] @ ''do:'' @ [CHR 0x0A] @ ''texto A''
             @ [CHR 0x0A, CHR 0x0A]
         \<and> resultados_relevantes st = [1, 0]
         \<and> map (\<lambda>r. campo (docs st ! r) ''rank'') (resultados_relevantes st)
             = [Some (PInt 1), Some (PInt 2)]
         \<and> map (\<lambda>r. campo (docs st ! r) ''distancia_l2'') (resultados_relevantes st)
             = [Some (PFloat (Finite 0)), Some (PFloat (Finite 2))]
         \<and> map (\<lambda>r. campo (docs st ! r) ''conteudo'') (resultados_relevantes st)
             = [Some (PStr ''texto C''), Some (PStr ''texto A'')])"
proof -
  have h1: "encode_exemplo [PStr ''icms''] = Inr [[Finite 0, Finite 1]]"
    by (simp add: encode_exemplo_def)
  have h2: "search_exemplo indice_exemplo [[Finite 0, Finite 1]] 2 = Inr ([[Finite 0, Finite 2]], [[1, 0]])"
    by (simp add: search_exemplo_def)
  have h3: "resposta_flat (ntotal indice_exemplo) 2 ([[Finite 0, Finite 2]], [[1, 0]])"
    by (simp add: resposta_flat_def ntotal_def indice_exemplo_def)
  have h4: "2 \<le> ntotal indice_exemplo"
    by (simp add: ntotal_def indice_exemplo_def)
  have h5: "length metadados_exemplo = ntotal indice_exemplo"
    by (simp add: ntotal_def indice_exemplo_def metadados_exemplo_def)
  have h6: "list_all passagem_ok metadados_exemplo"
    by (simp add: metadados_exemplo_def passagem_ok_def)
  have u2: "[0..<2] = [0, Suc 0]" by (simp add: upt_rec)
  from busca_com_k_ate_o_indice[where encode = encode_exemplo and search = search_exemplo
      and fmt = fmt_exemplo and ?fmt4.0 = fmt4_exemplo, OF h1 h2 h3 h4 h5 h6]
  obtain saida st where
    a: "buscar_faiss encode_exemplo search_exemplo fmt_exemplo fmt4_exemplo ''icms''
          indice_exemplo metadados_exemplo 2 = Inr (saida, st)"
    and s: "saida = concat (map (\<lambda>j. secao_do_resultado fmt_exemplo fmt4_exemplo (j + 1)
                                  (hd [[Finite 0, Finite 2]] ! j)
                                  (metadados_exemplo ! nat (hd [[1, 0]] ! j))) [0..<2])"
    and b: "resultados_relevantes st = map nat (hd [[1, 0]])"
    and c: "map (\<lambda>r. campo (docs st ! r) ''rank'') (resultados_relevantes st)
           = map (\<lambda>j. Some (PInt (int j + 1))) [0..<2]"
    and d: "map (\<lambda>r. campo (docs st ! r) ''distancia_l2'') (resultados_relevantes st)
           = map (\<lambda>x. Some (PFloat x)) (hd [[Finite 0, Finite 2]])"
    and e: "map (\<lambda>r. campo (docs st ! r) ''conteudo'') (resultados_relevantes st)
           = map (\<lambda>r. campo (metadados_exemplo ! r) ''conteudo'') (resultados_relevantes st)"
    by (elim exE conjE)
  from s have s': "saida =
             ''--- DOCUMENTO RANK 1 ---'' @ [CHR 0x0A] @ ''URL/Fonte: https://c'' @ [CHR 0x0A]
             @ ''Dist'' @ [CHR 0xC3, CHR 0xA2] @ ''ncia (Similaridade): 0.0000'' @ [CHR 0x0A]
             @ ''Conte'' @ [CHR 0xC3, CHR 0xBA] @ ''do:'' @ [CHR 0x0A] @ ''texto C''
             @ [CHR 0x0A, CHR 0x0A]
             @ ''--- DOCUMENTO RANK 2 ---'' @ [CHR 0x0A] @ ''URL/Fonte: https://a'' @ [CHR 0x0A]
             @ ''Dist'' @ [CHR 0xC3, CHR 0xA2] @ ''ncia (Similaridade): 2.0000'' @ [CHR 0x0A]
             @ ''Conte'' @ [CHR 0xC3, CHR 0xBA] @ ''do:'' @ [CHR 0x0A] @ ''texto A''
             @ [CHR 0x0A, CHR 0x0A]"
    by (simp add: u2 secao_do_resultado_def metadados_exemplo_def campo_def py_format_def
        fmt_exemplo_def fmt4_exemplo_def)
  from b have b': "resultados_relevantes st = [1, 0]" by simp
  from c have c': "map (\<lambda>r. campo (docs st ! r) ''rank'') (resultados_relevantes st)
             = [Some (PInt 1), Some (PInt 2)]" by (simp add: u2)
  from d have d': "map (\<lambda>r. campo (docs st ! r) ''distancia_l2'') (resultados_relevantes st)
             = [Some (PFloat (Finite 0)), Some (PFloat (Finite 2))]" by simp
  from e have e': "map (\<lambda>r. campo (docs st ! r) ''conteudo'') (resultados_relevantes st)
             = [Some (PStr ''texto C''), Some (PStr ''texto A'')]"
    by (simp add: b' metadados_exemplo_def campo_def)
  show ?thesis
    by (intro conjI h1 h2 h3 h4 h5 h6 exI[where x = saida] exI[where x = st] a s' b' c' d' e')
qed

section \<open>The term extractor\<close>

lemma py_strip_Nil: "py_strip [] = []"
  by (simp add: py_strip_def espaco_inicial_def espaco_final_def espacos_def)

lemma campo_strip_invalido:
  "campo_strip termos k = Inl AttributeError
   \<or> (\<exists>s. campo_strip termos k = Inr s \<and> (campo_invalido termos k \<longrightarrow> s = []))"
  by (auto simp: campo_strip_def campo_invalido_def py_strip_Nil split: option.splits pyval.splits)

lemma campos_resposta_invalida:
  assumes "resposta_invalida loads texto"
  shows "(\<exists>e. campos_da_resposta loads texto = Inl e)
         \<or> (\<exists>c p. campos_da_resposta loads texto = Inr (c, p) \<and> (c = [] \<or> p = []))"
proof (cases texto)
  case None
  then show ?thesis by (simp add: campos_da_resposta_def)
next
  case (Some t)
  show ?thesis
  proof (cases "loads t")
    case (Inl e)
    with Some show ?thesis by (simp add: campos_da_resposta_def)
  next
    case (Inr v)
    show ?thesis
    proof (cases v)
      case (PDict termos)
      with Some Inr assms have inv:
        "campo_invalido termos ''termo_curto'' \<or> campo_invalido termos ''termo_completo''"
        by (simp add: resposta_invalida_def)
      have eq: "campos_da_resposta loads texto =
          (case campo_strip termos ''termo_curto'' of
             Inl e \<Rightarrow> Inl e
           | Inr termo_curto \<Rightarrow>
               (case campo_strip termos ''termo_completo'' of
                  Inl e \<Rightarrow> Inl e
                | Inr termo_completo \<Rightarrow> Inr (termo_curto, termo_completo)))"
        using Some Inr PDict by (simp add: campos_da_resposta_def)
      from campo_strip_invalido[of termos "''termo_curto''"]
           campo_strip_invalido[of termos "''termo_completo''"] inv
      show ?thesis
        unfolding eq by auto
    qed (use Some Inr in \<open>simp_all add: campos_da_resposta_def\<close>)
  qed
qed

lemma extrair_termos_invalida:
  assumes "gemini amb (requisicao_termos xml) = Inr texto"
      and "resposta_invalida (json_loads amb) texto"
  shows "\<exists>erros. (erros = [Imprime ErroFormatoTermos, Imprime (ErroGeminiTermos ValueError)]
                   \<or> (\<exists>e. erros = [Imprime (ErroGeminiTermos e)]))
          \<and> extrair_termos_gemini amb xml = (None, ChamaGemini (requisicao_termos xml) # erros)"
  using campos_resposta_invalida[OF assms(2)] assms(1)
  by (auto simp: extrair_termos_gemini_def Let_def)

text \<open>
  C7. Let the run reach the term extraction (the invoice file is read and is not empty)
  and let the model's answer be one the extractor must refuse: no text, a text that does
  not parse, a value that is not an object, or an object in which \<^verbatim>\<open>termo_curto\<close> or
  \<^verbatim>\<open>termo_completo\<close> is missing, is not a string or is empty once trimmed. Then the
  extractor returns no terms and prints its error line, and \<^verbatim>\<open>main\<close> exits with status 1
  right after: the run holds the one request to the model and no pause, no script, no
  analysis request and no PDF.
\<close>

theorem resposta_invalida_aborta:
  assumes "2 \<le> length argv"
      and "arquivo_xml amb (argv ! 1) = Some (Inr xml)"
      and "xml \<noteq> []"
      and "gemini amb (requisicao_termos xml) = Inr texto"
      and "resposta_invalida (json_loads amb) texto"
  shows "\<exists>erros. (erros = [Imprime ErroFormatoTermos, Imprime (ErroGeminiTermos ValueError)]
                   \<or> (\<exists>e. erros = [Imprime (ErroGeminiTermos e)]))
          \<and> extrair_termos_gemini amb xml = (None, ChamaGemini (requisicao_termos xml) # erros)
          \<and> main amb argv =
              (Sai 1, [Imprime SucessoXmlLido, ChamaGemini (requisicao_termos xml)] @ erros
                      @ [Imprime FluxoInterrompidoTermos])"
proof -
  from extrair_termos_invalida[OF assms(4,5)] obtain erros where
    e: "erros = [Imprime ErroFormatoTermos, Imprime (ErroGeminiTermos ValueError)]
        \<or> (\<exists>e. erros = [Imprime (ErroGeminiTermos e)])"
    and x: "extrair_termos_gemini amb xml = (None, ChamaGemini (requisicao_termos xml) # erros)"
    by blast
  have "main amb argv =
      (Sai 1, [Imprime SucessoXmlLido, ChamaGemini (requisicao_termos xml)] @ erros
              @ [Imprime FluxoInterrompidoTermos])"
    using assms(1,2,3) x by (simp add: main_def ler_conteudo_xml_bruto_def)
  with e x show ?thesis by blast
qed

lemma py_strip_dois_espacos: "py_strip ''  '' = []"
  by (simp add: py_strip_def espaco_inicial_def espaco_final_def espacos_def)

theorem resposta_invalida_aborta_witness:
  "2 \<le> length [''LLM.py'', ''nota.xml'']
   \<and> arquivo_xml ambiente_termo_vazio ([''LLM.py'', ''nota.xml''] ! 1) = Some (Inr ''<NFe/>'')
   \<and> gemini ambiente_termo_vazio (requisicao_termos ''<NFe/>'') = Inr (Some resposta_termo_vazio)
   \<and> resposta_invalida (json_loads ambiente_termo_vazio) (Some resposta_termo_vazio)
   \<and> fst (extrair_termos_gemini ambiente_termo_vazio ''<NFe/>'') = None
   \<and> fst (main ambiente_termo_vazio [''LLM.py'', ''nota.xml'']) = Sai 1"
proof -
  have h1: "2 \<le> length [''LLM.py'', ''nota.xml'']" by simp
  have h2: "arquivo_xml ambiente_termo_vazio ([''LLM.py'', ''nota.xml''] ! 1) = Some (Inr ''<NFe/>'')"
    by (simp add: ambiente_termo_vazio_def)
  have h3: "''<NFe/>'' \<noteq> []" by simp
  have h4: "gemini ambiente_termo_vazio (requisicao_termos ''<NFe/>'') = Inr (Some resposta_termo_vazio)"
    by (simp add: ambiente_termo_vazio_def)
  have h5: "resposta_invalida (json_loads ambiente_termo_vazio) (Some resposta_termo_vazio)"
    by (simp add: resposta_invalida_def ambiente_termo_vazio_def campo_invalido_def
        py_strip_dois_espacos)
  from resposta_invalida_aborta[OF h1 h2 h3 h4 h5] h1 h2 h4 h5
  show ?thesis by auto
qed

section \<open>The report generator\<close>

lemma sublist_depois: "sublist xs zs \<Longrightarrow> sublist xs (ys @ zs)"
  by (auto simp: sublist_append)

lemma sublist_ConsI: "sublist xs ys \<Longrightarrow> sublist xs (y # ys)"
  by (simp add: sublist_Cons_right)

lemma nota_no_prompt_termos:
  "sublist conteudo_xml_bruto (contents (requisicao_termos conteudo_xml_bruto))"
proof -
  have "sublist conteudo_xml_bruto (prompt_termos conteudo_xml_bruto)"
    unfolding prompt_termos_def
    by (intro sublist_append_rightI sublist_depois sublist_ConsI)
  then show ?thesis by (simp add: requisicao_termos_def)
qed

text \<open>
  C1, evaluated on the code. The request of the final analysis is the same for every
  invoice text and every block of passages: its contents are the fixed prompt, which
  announces the two texts ("Abaixo estao o conteudo BRUTO ... e um trecho de leis") and
  holds neither. For the invoice \<^verbatim>\<open><NFe><xProd>ACUCAR</xProd></NFe>\<close> and the block
  \<^verbatim>\<open>--- DOCUMENTO RANK 1 ---\<close>, neither text is part of the contents sent.
\<close>

theorem requisicao_analise_ignora_entradas:
  "requisicao_analise conteudo_xml_bruto resultados_busca = requisicao_analise [] []
   \<and> hd (snd (analisar_resultados_gemini amb conteudo_xml_bruto resultados_busca))
       = ChamaGemini (requisicao_analise [] [])
   \<and> \<not> sublist ''<NFe><xProd>ACUCAR</xProd></NFe>''
         (contents (requisicao_analise ''<NFe><xProd>ACUCAR</xProd></NFe>''
                      ''--- DOCUMENTO RANK 1 ---''))
   \<and> \<not> sublist ''--- DOCUMENTO RANK 1 ---''
         (contents (requisicao_analise ''<NFe><xProd>ACUCAR</xProd></NFe>''
                      ''--- DOCUMENTO RANK 1 ---''))"
proof -
  have a: "requisicao_analise conteudo_xml_bruto resultados_busca = requisicao_analise [] []"
    by (simp add: requisicao_analise_def prompt_analise_def)
  have "hd (snd (analisar_resultados_gemini amb conteudo_xml_bruto resultados_busca))
          = ChamaGemini (requisicao_analise conteudo_xml_bruto resultados_busca)"
    by (simp add: analisar_resultados_gemini_def Let_def split: sum.splits option.splits)
  with a have b: "hd (snd (analisar_resultados_gemini amb conteudo_xml_bruto resultados_busca))
       = ChamaGemini (requisicao_analise [] [])" by simp
  have c: "\<not> sublist ''<NFe><xProd>ACUCAR</xProd></NFe>''
         (contents (requisicao_analise ''<NFe><xProd>ACUCAR</xProd></NFe>''
                      ''--- DOCUMENTO RANK 1 ---''))"
    by (simp add: requisicao_analise_def prompt_analise_def sublist_code)
  have d: "\<not> sublist ''--- DOCUMENTO RANK 1 ---''
         (contents (requisicao_analise ''<NFe><xProd>ACUCAR</xProd></NFe>''
                      ''--- DOCUMENTO RANK 1 ---''))"
    by (simp add: requisicao_analise_def prompt_analise_def sublist_code)
  show ?thesis by (intro conjI a b c d)
qed

lemma analise_de_erro_contem: "sublist erro_de_analise analise_de_erro"
  unfolding analise_de_erro_def by (rule sublist_appendI)

text \<open>
  C9 (as amended). The analysis text is not validated. When the model answers with a
  text, that text is the analysis as it is, and the PDF is asked for exactly when the
  text is not empty and does not contain the words "Erro de Analise" (a top-level
  heading plays no part); otherwise the warning is printed and no PDF is asked for. The
  error document takes the place of the analysis only when the call raises or the
  answer has no text, and then no PDF is asked for.
\<close>

theorem analise_sem_validacao:
  "(gemini amb (requisicao_analise xml busca) = Inr (Some t) \<longrightarrow>
      fst (analisar_resultados_gemini amb xml busca) = t
      \<and> etapas_analise_e_pdf amb xml busca arq =
          [ChamaGemini (requisicao_analise xml busca), Imprime SucessoAnalise]
          @ (if t \<noteq> [] \<and> \<not> sublist erro_de_analise t
             then [GeraPdf (splitext_root amb arq @ ''_analise.pdf'') t,
                   Imprime (if write_pdf amb (splitext_root amb arq @ ''_analise.pdf'') t
                            then SucessoPdf (splitext_root amb arq @ ''_analise.pdf'')
                            else ErroPdf)]
             else [Imprime AvisoPdfNaoGerado])
          @ [Imprime ProcessamentoConcluido])
   \<and> (gemini amb (requisicao_analise xml busca) = Inl e \<longrightarrow>
      fst (analisar_resultados_gemini amb xml busca) = analise_de_erro
      \<and> etapas_analise_e_pdf amb xml busca arq =
          [ChamaGemini (requisicao_analise xml busca), Imprime (ErroAnaliseFinal e),
           Imprime AvisoPdfNaoGerado, Imprime ProcessamentoConcluido])
   \<and> (gemini amb (requisicao_analise xml busca) = Inr None \<longrightarrow>
      fst (analisar_resultados_gemini amb xml busca) = analise_de_erro
      \<and> etapas_analise_e_pdf amb xml busca arq =
          [ChamaGemini (requisicao_analise xml busca), Imprime SucessoAnalise,
           Imprime (ErroAnaliseFinal TypeError),
           Imprime AvisoPdfNaoGerado, Imprime ProcessamentoConcluido])"
  using analise_de_erro_contem
  by (simp add: etapas_analise_e_pdf_def analisar_resultados_gemini_def gerar_pdf_def Let_def)

lemma texto_sem_erro: "\<not> sublist erro_de_analise ''A nota trata de acucar.''"
  by (simp add: erro_de_analise_def sublist_code)

theorem analise_sem_validacao_witness:
  "gemini (ambiente_de_resposta (Inr (Some ''A nota trata de acucar.'')))
       (requisicao_analise ''<NFe/>'' ''trecho'') = Inr (Some ''A nota trata de acucar.'')
   \<and> etapas_analise_e_pdf (ambiente_de_resposta (Inr (Some ''A nota trata de acucar.'')))
        ''<NFe/>'' ''trecho'' ''nota.xml'' =
       [ChamaGemini (requisicao_analise ''<NFe/>'' ''trecho''), Imprime SucessoAnalise,
        GeraPdf ''nota_analise.pdf'' ''A nota trata de acucar.'',
        Imprime (SucessoPdf ''nota_analise.pdf''), Imprime ProcessamentoConcluido]
   \<and> gemini (ambiente_de_resposta (Inl OtherError))
       (requisicao_analise ''<NFe/>'' ''trecho'') = Inl OtherError
   \<and> etapas_analise_e_pdf (ambiente_de_resposta (Inl OtherError)) ''<NFe/>'' ''trecho'' ''nota.xml'' =
       [ChamaGemini (requisicao_analise ''<NFe/>'' ''trecho''), Imprime (ErroAnaliseFinal OtherError),
        Imprime AvisoPdfNaoGerado, Imprime ProcessamentoConcluido]
   \<and> gemini (ambiente_de_resposta (Inr None))
       (requisicao_analise ''<NFe/>'' ''trecho'') = Inr None
   \<and> fst (analisar_resultados_gemini (ambiente_de_resposta (Inr None)) ''<NFe/>'' ''trecho'')
       = analise_de_erro"
  using analise_sem_validacao[of "ambiente_de_resposta (Inr (Some ''A nota trata de acucar.''))"
      "''<NFe/>''" "''trecho''" "''A nota trata de acucar.''" "''nota.xml''" OtherError]
    analise_sem_validacao[of "ambiente_de_resposta (Inl OtherError)"
      "''<NFe/>''" "''trecho''" "''A nota trata de acucar.''" "''nota.xml''" OtherError]
    analise_sem_validacao[of "ambiente_de_resposta (Inr None)"
      "''<NFe/>''" "''trecho''" "''A nota trata de acucar.''" "''nota.xml''" OtherError]
    texto_sem_erro
  by (simp add: ambiente_de_resposta_def)

text \<open>
  C9 as stated fails: the answer "A nota trata de acucar." does not start with a
  heading, and it is kept as the analysis and rendered to \<^verbatim>\<open>nota_analise.pdf\<close>.
\<close>

theorem analise_sem_titulo_gera_pdf:
  "hd ''A nota trata de acucar.'' \<noteq> CHR ''#''
   \<and> fst (analisar_resultados_gemini (ambiente_de_resposta (Inr (Some ''A nota trata de acucar.'')))
        ''<NFe/>'' ''trecho'') = ''A nota trata de acucar.''
   \<and> etapas_analise_e_pdf (ambiente_de_resposta (Inr (Some ''A nota trata de acucar.'')))
        ''<NFe/>'' ''trecho'' ''nota.xml'' =
       [ChamaGemini (requisicao_analise ''<NFe/>'' ''trecho''), Imprime SucessoAnalise,
        GeraPdf ''nota_analise.pdf'' ''A nota trata de acucar.'',
        Imprime (SucessoPdf ''nota_analise.pdf''), Imprime ProcessamentoConcluido]"
  using texto_sem_erro
  by (simp add: etapas_analise_e_pdf_def analisar_resultados_gemini_def gerar_pdf_def Let_def
      ambiente_de_resposta_def)


end
